theory Spec2Isabelle
  imports Main "HOL-Library.Word" "HOL-Library.Multiset"
begin

section \<open>Values of the host language\<close>

text \<open>
  The ledger is embedded from \<open>blockchain.js\<close>, the module the server and the
  signature test import. The repository holds two revisions of the module; the
  embedding follows the later one, in which a signature is an object with a recovery
  id. The transactions of the earlier revision, which differ in how they are signed
  and verified, are embedded in a section of their own.

  Byte buffers (\<open>Buffer\<close>, \<open>Uint8Array\<close>) are lists of 8-bit words; strings are
  byte strings (their UTF-8 encoding). Numbers that the program only ever uses as
  counters (indices, nonces, millisecond timestamps, recovery ids) are naturals.
  Amounts and balances are the numbers of the host with an integer value: a
  fraction is not an amount here. Sums and differences of them are rounded as the
  host rounds (see \<open>js_round\<close>), and a number is printed in decimal digits, as the
  host prints the integers below \<open>10^21\<close>.
\<close>

unbundle bit_operations_syntax

type_synonym bytes = "8 word list"

text \<open>\<open>update(s)\<close> of a string hashes its bytes.\<close>

definition utf8 :: "string \<Rightarrow> bytes" where
  "utf8 s = map (\<lambda>c. of_nat (of_char c)) s"

subsection \<open>Arithmetic on numbers\<close>

text \<open>
  The numbers of the host are binary floating-point numbers with 53 significant
  bits. The sum of two of them that are integers is the exact sum rounded to the
  nearest such number, a tie going to the even significand: exact up to \<open>2^53\<close>, and
  from there on a multiple of the power of two that leaves 53 bits. (From \<open>2^1024\<close>
  on the host has \<open>Infinity\<close>; the rounding here goes on.)
\<close>

fun bit_length :: "nat \<Rightarrow> nat" where
  "bit_length n = (if n = 0 then 0 else Suc (bit_length (n div 2)))"

declare bit_length.simps [simp del]

definition js_round :: "int \<Rightarrow> int" where
  "js_round x =
     (let n = nat \<bar>x\<bar> in
      if n \<le> 9007199254740992 then x
      else let q = 2 ^ (bit_length n - 53);
               m = n div q;
               r = n mod q;
               m' = (if 2 * r < q then m
                     else if q < 2 * r then m + 1
                     else if even m then m else m + 1)
           in sgn x * int (m' * q))"

definition js_add :: "int \<Rightarrow> int \<Rightarrow> int" where
  "js_add x y = js_round (x + y)"

definition js_sub :: "int \<Rightarrow> int \<Rightarrow> int" where
  "js_sub x y = js_round (x - y)"

subsection \<open>Hexadecimal encoding: \<open>buf.toString('hex')\<close> and \<open>Buffer.from(s, 'hex')\<close>\<close>

text \<open>The digit of a number below 16.\<close>

definition hexdigit :: "nat \<Rightarrow> char" where
  "hexdigit n = ''0123456789abcdef'' ! n"

definition toHex :: "bytes \<Rightarrow> string" where
  "toHex bs = concat (map (\<lambda>b. [hexdigit (unat b div 16), hexdigit (unat b mod 16)]) bs)"

definition hexval :: "char \<Rightarrow> nat option" where
  "hexval c = map_of
     [(CHR ''0'', 0), (CHR ''1'', 1), (CHR ''2'', 2), (CHR ''3'', 3), (CHR ''4'', 4),
      (CHR ''5'', 5), (CHR ''6'', 6), (CHR ''7'', 7), (CHR ''8'', 8), (CHR ''9'', 9),
      (CHR ''a'', 10), (CHR ''b'', 11), (CHR ''c'', 12), (CHR ''d'', 13), (CHR ''e'', 14),
      (CHR ''f'', 15), (CHR ''A'', 10), (CHR ''B'', 11), (CHR ''C'', 12), (CHR ''D'', 13),
      (CHR ''E'', 14), (CHR ''F'', 15)] c"

text \<open>
  Decoding reads two digits per byte and stops, without an error, at the first pair
  that is not hexadecimal; a trailing single character is dropped.
\<close>

fun fromHex :: "string \<Rightarrow> bytes" where
  "fromHex (a # b # rest) =
     (case hexval a of
        None \<Rightarrow> []
      | Some x \<Rightarrow> (case hexval b of
                    None \<Rightarrow> []
                  | Some y \<Rightarrow> of_nat (16 * x + y) # fromHex rest))"
| "fromHex _ = []"

subsection \<open>Numbers as strings, and \<open>JSON.stringify\<close>\<close>

fun show_nat :: "nat \<Rightarrow> string" where
  "show_nat n = (if n < 10 then [hexdigit n] else show_nat (n div 10) @ [hexdigit (n mod 10)])"

declare show_nat.simps [simp del]

definition show_int :: "int \<Rightarrow> string" where
  "show_int i = (if i < 0 then CHR ''-'' # show_nat (nat (- i)) else show_nat (nat i))"

text \<open>String quoting of \<open>JSON.stringify\<close>: the quote, the backslash and the control
  characters are escaped, every other byte is kept.\<close>

definition json_escape_char :: "char \<Rightarrow> string" where
  "json_escape_char c =
     (if c = CHR 0x22 then [CHR 0x5C, CHR 0x22]
      else if c = CHR 0x5C then [CHR 0x5C, CHR 0x5C]
      else if c = CHR 0x08 then [CHR 0x5C, CHR ''b'']
      else if c = CHR 0x0C then [CHR 0x5C, CHR ''f'']
      else if c = CHR 0x0A then [CHR 0x5C, CHR ''n'']
      else if c = CHR 0x0D then [CHR 0x5C, CHR ''r'']
      else if c = CHR 0x09 then [CHR 0x5C, CHR ''t'']
      else if (of_char c :: nat) < 32
        then [CHR 0x5C, CHR ''u'', CHR ''0'', CHR ''0'',
              hexdigit (of_char c div 16), hexdigit (of_char c mod 16)]
      else [c])"

definition json_string :: "string \<Rightarrow> string" where
  "json_string s = [CHR 0x22] @ concat (map json_escape_char s) @ [CHR 0x22]"

definition json_address :: "string option \<Rightarrow> string" where
  "json_address a = (case a of None \<Rightarrow> ''null'' | Some s \<Rightarrow> json_string s)"

fun json_join :: "string list \<Rightarrow> string" where
  "json_join [] = []"
| "json_join [x] = x"
| "json_join (x # y # ys) = x @ '','' @ json_join (y # ys)"

section \<open>The cryptographic library\<close>

text \<open>
  The digest of \<open>crypto\<close> and the functions of \<open>secp256k1\<close> are not code of the
  ledger: they are parameters of every definition that calls them. A function of the
  library that can throw returns an option, \<open>None\<close> being the exception.
\<close>

record crypto =
  sha256 :: "bytes \<Rightarrow> bytes"
  privateKeyVerify :: "bytes \<Rightarrow> bool"
  publicKeyCreate :: "bytes \<Rightarrow> bytes option"
  ecdsaSign :: "bytes \<Rightarrow> bytes \<Rightarrow> (bytes \<times> nat) option"
  ecdsaRecover :: "bytes \<Rightarrow> nat \<Rightarrow> bytes \<Rightarrow> bytes option"
  ecdsaVerify :: "bytes \<Rightarrow> bytes \<Rightarrow> bytes \<Rightarrow> bool option"

text \<open>\<open>createHash('sha256').update(x).digest('hex')\<close>\<close>

definition digest_hex :: "crypto \<Rightarrow> bytes \<Rightarrow> string" where
  "digest_hex lib x = toHex (sha256 lib x)"

text \<open>
  The exceptions of the module, one constructor for each thrown message: no signing
  key; signing or importing a key failed; sender or recipient missing; amount not
  positive; invalid signature; balance too low; no signature found (thrown by the
  earlier revision only); and the type error of the host.
\<close>

datatype error =
    MissingKey | InvalidKey | MissingAddress | InvalidAmount | InvalidSignature
  | InsufficientBalance | MissingSignature | TypeError

section \<open>Transactions\<close>

text \<open>
  The signature of a transaction is \<open>null\<close> or the object
  \<open>{signature, recovery}\<close>; the fields of that object are \<open>sigHex\<close> and
  \<open>recovery\<close> here, the creation time of a transaction is \<open>txTimestamp\<close>.
\<close>

record signature_obj =
  sigHex :: string
  recovery :: nat

record transaction =
  fromAddress :: "string option"
  toAddress :: "string option"
  amount :: int
  txTimestamp :: nat
  signature :: "signature_obj option"

text \<open>The constructor; \<open>now\<close> is the value of \<open>Date.now()\<close>.\<close>

definition Transaction :: "string option \<Rightarrow> string option \<Rightarrow> int \<Rightarrow> nat \<Rightarrow> transaction" where
  "Transaction from to amt now =
     \<lparr>fromAddress = from, toAddress = to, amount = amt, txTimestamp = now, signature = None\<rparr>"

text \<open>
  \<open>this.fromAddress + this.toAddress + this.amount + this.timestamp\<close>, evaluated from
  the left: as soon as one operand is a string the sum is a concatenation, and
  \<open>null\<close> is then written \<open>null\<close>. Two \<open>null\<close> addresses add up to a number,
  which \<open>update\<close> refuses with a type error: then there is no text, and
  \<open>calculateHash\<close> throws (\<open>None\<close>).
\<close>

definition Transaction_preimage :: "transaction \<Rightarrow> string option" where
  "Transaction_preimage tx =
     (case (fromAddress tx, toAddress tx) of
        (Some f, Some t) \<Rightarrow> Some (f @ t @ show_int (amount tx) @ show_nat (txTimestamp tx))
      | (Some f, None) \<Rightarrow> Some (f @ ''null'' @ show_int (amount tx) @ show_nat (txTimestamp tx))
      | (None, Some t) \<Rightarrow> Some (''null'' @ t @ show_int (amount tx) @ show_nat (txTimestamp tx))
      | (None, None) \<Rightarrow> None)"

definition Transaction_calculateHash :: "crypto \<Rightarrow> transaction \<Rightarrow> string option" where
  "Transaction_calculateHash lib tx =
     map_option (\<lambda>s. digest_hex lib (utf8 s)) (Transaction_preimage tx)"

definition json_signature :: "signature_obj option \<Rightarrow> string" where
  "json_signature s =
     (case s of
        None \<Rightarrow> ''null''
      | Some g \<Rightarrow> ''{'' @ json_string ''signature'' @ '':'' @ json_string (sigHex g) @ '',''
                  @ json_string ''recovery'' @ '':'' @ show_nat (recovery g) @ ''}'')"

definition json_transaction :: "transaction \<Rightarrow> string" where
  "json_transaction tx =
     ''{'' @ json_string ''fromAddress'' @ '':'' @ json_address (fromAddress tx) @ '',''
     @ json_string ''toAddress'' @ '':'' @ json_address (toAddress tx) @ '',''
     @ json_string ''amount'' @ '':'' @ show_int (amount tx) @ '',''
     @ json_string ''timestamp'' @ '':'' @ show_nat (txTimestamp tx) @ '',''
     @ json_string ''signature'' @ '':'' @ json_signature (signature tx) @ ''}''"

definition stringify :: "transaction list \<Rightarrow> string" where
  "stringify txs = ''['' @ json_join (map json_transaction txs) @ '']''"


text \<open>The argument of \<open>signTransaction\<close>: nothing, a hexadecimal string or a buffer.\<close>

datatype signing_key = NoKey | KeyHex string | KeyBuffer bytes

text \<open>\<open>!signingKey\<close>: \<open>null\<close>, \<open>undefined\<close> and the empty string are falsy.\<close>

definition key_missing :: "signing_key \<Rightarrow> bool" where
  "key_missing k = (case k of NoKey \<Rightarrow> True | KeyHex s \<Rightarrow> s = [] | KeyBuffer b \<Rightarrow> False)"

definition key_buffer :: "signing_key \<Rightarrow> bytes" where
  "key_buffer k = (case k of KeyBuffer b \<Rightarrow> b | KeyHex s \<Rightarrow> fromHex s | NoKey \<Rightarrow> [])"

text \<open>
  \<open>signTransaction\<close>: the missing key is reported before the \<open>try\<close>; every
  failure inside it (wrong length, invalid scalar, an exception of \<open>calculateHash\<close>
  or of \<open>ecdsaSign\<close>) is rethrown as one signing error, \<open>InvalidKey\<close> here.
\<close>

definition signTransaction :: "crypto \<Rightarrow> transaction \<Rightarrow> signing_key \<Rightarrow> error + transaction" where
  "signTransaction lib tx signingKey =
     (if key_missing signingKey then Inl MissingKey
      else let privateKeyBuffer = key_buffer signingKey in
        if length privateKeyBuffer \<noteq> 32 then Inl InvalidKey
        else if \<not> privateKeyVerify lib privateKeyBuffer then Inl InvalidKey
        else (case Transaction_calculateHash lib tx of
                None \<Rightarrow> Inl InvalidKey
              | Some txHash \<Rightarrow>
                  (case ecdsaSign lib (fromHex txHash) privateKeyBuffer of
                     None \<Rightarrow> Inl InvalidKey
                   | Some (sg, recid) \<Rightarrow>
                       Inr (tx\<lparr>signature := Some \<lparr>sigHex = toHex sg, recovery = recid\<rparr>\<rparr>))))"

text \<open>
  \<open>isValid\<close>: every exception (of \<open>calculateHash\<close>, of the library) is raised
  inside the \<open>try\<close> and turned into \<open>false\<close>, so the function is total and its
  result a boolean.
\<close>

definition isValid :: "crypto \<Rightarrow> transaction \<Rightarrow> bool" where
  "isValid lib tx =
     (case fromAddress tx of
        None \<Rightarrow> True
      | Some sender \<Rightarrow>
         (case signature tx of
            None \<Rightarrow> False
          | Some sg \<Rightarrow>
              if sigHex sg = [] then False
              else (case Transaction_calculateHash lib tx of
                      None \<Rightarrow> False
                    | Some txHash \<Rightarrow>
                       let msgHash = fromHex txHash;
                           signatureBuffer = fromHex (sigHex sg) in
                       (case ecdsaRecover lib signatureBuffer (recovery sg) msgHash of
                          None \<Rightarrow> False
                        | Some recoveredPubKey \<Rightarrow>
                            if digest_hex lib recoveredPubKey \<noteq> sender then False
                            else (case ecdsaVerify lib signatureBuffer msgHash recoveredPubKey of
                                    None \<Rightarrow> False
                                  | Some isSignatureValid \<Rightarrow> isSignatureValid)))))"

section \<open>Blocks and proof of work\<close>

record block =
  index :: nat
  timestamp :: nat
  transactions :: "transaction list"
  previousHash :: string
  hash :: string
  nonce :: nat

text \<open>
  The text that \<open>calculateHash\<close> digests. \<open>this.index + this.timestamp\<close> is a sum
  of two numbers; from the serialised transactions on, \<open>+\<close> concatenates. The last
  operand is \<open>this.nonce\<close>: the number, or \<open>undefined\<close> while the object has no
  such field yet.
\<close>

definition Block_preimage :: "nat \<Rightarrow> nat \<Rightarrow> transaction list \<Rightarrow> string \<Rightarrow> nat option \<Rightarrow> string" where
  "Block_preimage i ts txs prev n =
     show_nat (i + ts) @ stringify txs @ prev
     @ (case n of None \<Rightarrow> ''undefined'' | Some k \<Rightarrow> show_nat k)"

definition Block_calculateHash :: "crypto \<Rightarrow> block \<Rightarrow> string" where
  "Block_calculateHash lib b =
     digest_hex lib (utf8 (Block_preimage (index b) (timestamp b) (transactions b)
                             (previousHash b) (Some (nonce b))))"

text \<open>
  The constructor assigns \<open>this.hash = this.calculateHash()\<close> and only then
  \<open>this.nonce = 0\<close>: when the hash is computed the object has no nonce.
\<close>

definition Block :: "crypto \<Rightarrow> nat \<Rightarrow> nat \<Rightarrow> transaction list \<Rightarrow> string \<Rightarrow> block" where
  "Block lib i ts txs prev =
     \<lparr>index = i, timestamp = ts, transactions = txs, previousHash = prev,
      hash = digest_hex lib (utf8 (Block_preimage i ts txs prev None)),
      nonce = 0\<rparr>"

text \<open>The loop condition of \<open>mineBlock\<close>, negated: the first \<open>difficulty\<close>
  characters of the hash are that many zeros.\<close>

definition meets :: "nat \<Rightarrow> string \<Rightarrow> bool" where
  "meets difficulty h = (take difficulty h = replicate difficulty CHR ''0'')"

definition next_nonce :: "crypto \<Rightarrow> block \<Rightarrow> block" where
  "next_nonce lib b =
     (let b1 = b\<lparr>nonce := nonce b + 1\<rparr> in b1\<lparr>hash := Block_calculateHash lib b1\<rparr>)"

text \<open>The search has no bound: a search that never ends is \<open>None\<close>.\<close>

partial_function (option) mineBlock :: "crypto \<Rightarrow> nat \<Rightarrow> block \<Rightarrow> block option" where
  "mineBlock lib difficulty b =
     (if \<not> meets difficulty (hash b) then mineBlock lib difficulty (next_nonce lib b)
      else Some b)"

section \<open>The ledger\<close>

record blockchain =
  chain :: "block list"
  difficulty :: nat
  pendingTransactions :: "transaction list"
  miningReward :: int

definition createGenesisBlock :: "crypto \<Rightarrow> nat \<Rightarrow> block" where
  "createGenesisBlock lib now = Block lib 0 now [] ''0''"

definition Blockchain :: "crypto \<Rightarrow> nat \<Rightarrow> blockchain" where
  "Blockchain lib now =
     \<lparr>chain = [createGenesisBlock lib now], difficulty = 2, pendingTransactions = [],
      miningReward = 100\<rparr>"

text \<open>\<open>this.chain[this.chain.length - 1]\<close> is \<open>undefined\<close> on an empty chain.\<close>

definition getLatestBlock :: "blockchain \<Rightarrow> block option" where
  "getLatestBlock bc = (if chain bc = [] then None else Some (last (chain bc)))"

text \<open>
  \<open>getBalanceOfAddress\<close>: the two nested loops, the balance as accumulator,
  \<open>-=\<close> and \<open>+=\<close> with the rounding of the host. The address asked for is a
  string or \<open>null\<close>; \<open>===\<close> compares it with the field.
\<close>

fun balance_transactions :: "string option \<Rightarrow> transaction list \<Rightarrow> int \<Rightarrow> int" where
  "balance_transactions a [] balance = balance"
| "balance_transactions a (tr # rest) balance =
     balance_transactions a rest
       (let b1 = (if fromAddress tr = a then js_sub balance (amount tr) else balance)
        in if toAddress tr = a then js_add b1 (amount tr) else b1)"

fun balance_blocks :: "string option \<Rightarrow> block list \<Rightarrow> int \<Rightarrow> int" where
  "balance_blocks a [] balance = balance"
| "balance_blocks a (b # rest) balance =
     balance_blocks a rest (balance_transactions a (transactions b) balance)"

definition getBalanceOfAddress :: "blockchain \<Rightarrow> string option \<Rightarrow> int" where
  "getBalanceOfAddress bc a = balance_blocks a (chain bc) 0"

text \<open>\<open>!x\<close> on an address: \<open>null\<close> and the empty string are falsy.\<close>

definition absent :: "string option \<Rightarrow> bool" where
  "absent a = (a = None \<or> a = Some [])"

text \<open>
  \<open>addTransaction\<close> returns its result and the ledger; every exception is thrown
  before the queue is touched. An amount is a number here, so of the test
  \<open>typeof amount !== 'number' || amount <= 0\<close> the comparison remains.
\<close>

definition addTransaction :: "crypto \<Rightarrow> blockchain \<Rightarrow> transaction \<Rightarrow> (error + bool) \<times> blockchain" where
  "addTransaction lib bc tx =
     (if absent (fromAddress tx) \<or> absent (toAddress tx) then (Inl MissingAddress, bc)
      else if amount tx \<le> 0 then (Inl InvalidAmount, bc)
      else if fromAddress tx \<noteq> None then
        (if \<not> isValid lib tx then (Inl InvalidSignature, bc)
         else if getBalanceOfAddress bc (fromAddress tx) < amount tx
           then (Inl InsufficientBalance, bc)
         else (Inr True, bc\<lparr>pendingTransactions := pendingTransactions bc @ [tx]\<rparr>))
      else (Inr True, bc\<lparr>pendingTransactions := pendingTransactions bc @ [tx]\<rparr>))"

text \<open>
  \<open>minePendingTransactions\<close>: \<open>nowTx\<close> and \<open>nowBlock\<close> are the two readings of the
  clock, for the reward transaction and for the block. The reward address is an
  address, a string. The block shares the array of the queue, and the queue is then
  replaced by a fresh array, so no later push reaches the block. \<open>None\<close> is a search
  that never returns.
\<close>

definition minePendingTransactions ::
  "crypto \<Rightarrow> blockchain \<Rightarrow> string \<Rightarrow> nat \<Rightarrow> nat \<Rightarrow> ((error + block) \<times> blockchain) option" where
  "minePendingTransactions lib bc miningRewardAddress nowTx nowBlock =
     (let rewardTx = Transaction None (Some miningRewardAddress) (miningReward bc) nowTx;
          bc1 = bc\<lparr>pendingTransactions := pendingTransactions bc @ [rewardTx]\<rparr>
      in case getLatestBlock bc1 of
           None \<Rightarrow> Some (Inl TypeError, bc1)
         | Some latest \<Rightarrow>
             (case mineBlock lib (difficulty bc1)
                     (Block lib (length (chain bc1)) nowBlock (pendingTransactions bc1) (hash latest)) of
                None \<Rightarrow> None
              | Some blk \<Rightarrow>
                  Some (Inr blk, bc1\<lparr>chain := chain bc1 @ [blk], pendingTransactions := []\<rparr>)))"

text \<open>\<open>isChainValid\<close>: the loop over the transactions of a block, and the loop over
  the blocks from the second one on, each with its predecessor.\<close>

fun transactions_valid :: "crypto \<Rightarrow> transaction list \<Rightarrow> bool" where
  "transactions_valid lib [] = True"
| "transactions_valid lib (tx # rest) =
     (if \<not> isValid lib tx \<and> fromAddress tx \<noteq> None then False
      else transactions_valid lib rest)"

fun blocks_valid :: "crypto \<Rightarrow> block \<Rightarrow> block list \<Rightarrow> bool" where
  "blocks_valid lib previousBlock [] = True"
| "blocks_valid lib previousBlock (currentBlock # rest) =
     (if hash currentBlock \<noteq> Block_calculateHash lib currentBlock then False
      else if previousHash currentBlock \<noteq> hash previousBlock then False
      else if \<not> transactions_valid lib (transactions currentBlock) then False
      else blocks_valid lib currentBlock rest)"

definition isChainValid :: "crypto \<Rightarrow> blockchain \<Rightarrow> bool" where
  "isChainValid lib bc = (case chain bc of [] \<Rightarrow> True | b0 # rest \<Rightarrow> blocks_valid lib b0 rest)"

section \<open>Wallets\<close>

record wallet =
  privateKey :: string
  publicKey :: string
  address :: string

text \<open>
  \<open>generate\<close>: the list holds the successive results of \<open>randomBytes(32)\<close>; the
  loop draws until a candidate is a valid private key, and \<open>None\<close> is a loop that
  has not returned on the draws given. An exception of the library is rethrown.
\<close>

fun generate :: "crypto \<Rightarrow> bytes list \<Rightarrow> (error + wallet) option" where
  "generate lib [] = None"
| "generate lib (candidate # draws) =
     (if \<not> privateKeyVerify lib candidate then generate lib draws
      else (case publicKeyCreate lib candidate of
              None \<Rightarrow> Some (Inl InvalidKey)
            | Some pub \<Rightarrow>
                Some (Inr \<lparr>privateKey = toHex candidate, publicKey = toHex pub,
                           address = digest_hex lib pub\<rparr>)))"

definition fromPrivateKey :: "crypto \<Rightarrow> string \<Rightarrow> error + wallet" where
  "fromPrivateKey lib privateKeyHex =
     (let pk = fromHex privateKeyHex in
      if length pk \<noteq> 32 then Inl InvalidKey
      else if \<not> privateKeyVerify lib pk then Inl InvalidKey
      else (case publicKeyCreate lib pk of
              None \<Rightarrow> Inl InvalidKey
            | Some pub \<Rightarrow>
                Inr \<lparr>privateKey = privateKeyHex, publicKey = toHex pub,
                     address = digest_hex lib pub\<rparr>))"

section \<open>Transactions of the earlier revision\<close>

text \<open>
  In the earlier revision of the module a signature is one hexadecimal string, the
  64 bytes of the signature followed by the recovery id. \<open>signTransaction\<close> has no
  \<open>try\<close>: an exception of \<open>ecdsaSign\<close> propagates. \<open>isValid\<close> throws when there
  is no signature, and otherwise verifies the signature against the bytes of the
  sender address, taken as the public key. The fields carry the suffix \<open>1\<close> here.
  (In that revision \<open>addTransaction\<close> has no check of the amount, and the difficulty
  of a new ledger is 3.)
\<close>

record transaction_v1 =
  fromAddress1 :: "string option"
  toAddress1 :: "string option"
  amount1 :: int
  timestamp1 :: nat
  signature1 :: "string option"

definition Transaction_v1 :: "string option \<Rightarrow> string option \<Rightarrow> int \<Rightarrow> nat \<Rightarrow> transaction_v1" where
  "Transaction_v1 from to amt now =
     \<lparr>fromAddress1 = from, toAddress1 = to, amount1 = amt, timestamp1 = now, signature1 = None\<rparr>"

definition calculateHash_v1 :: "crypto \<Rightarrow> transaction_v1 \<Rightarrow> string option" where
  "calculateHash_v1 lib tx =
     map_option (\<lambda>s. digest_hex lib (utf8 s))
       (case (fromAddress1 tx, toAddress1 tx) of
          (Some f, Some t) \<Rightarrow> Some (f @ t @ show_int (amount1 tx) @ show_nat (timestamp1 tx))
        | (Some f, None) \<Rightarrow> Some (f @ ''null'' @ show_int (amount1 tx) @ show_nat (timestamp1 tx))
        | (None, Some t) \<Rightarrow> Some (''null'' @ t @ show_int (amount1 tx) @ show_nat (timestamp1 tx))
        | (None, None) \<Rightarrow> None)"

definition signTransaction_v1 :: "crypto \<Rightarrow> transaction_v1 \<Rightarrow> signing_key \<Rightarrow> error + transaction_v1" where
  "signTransaction_v1 lib tx signingKey =
     (if key_missing signingKey then Inl MissingKey
      else (case calculateHash_v1 lib tx of
              None \<Rightarrow> Inl TypeError
            | Some txHash \<Rightarrow>
                (case ecdsaSign lib (fromHex txHash) (key_buffer signingKey) of
                   None \<Rightarrow> Inl InvalidKey
                 | Some (sg, recid) \<Rightarrow>
                     Inr (tx\<lparr>signature1 := Some (toHex (sg @ [of_nat recid]))\<rparr>))))"

definition isValid_v1 :: "crypto \<Rightarrow> transaction_v1 \<Rightarrow> error + bool" where
  "isValid_v1 lib tx =
     (case fromAddress1 tx of
        None \<Rightarrow> Inr True
      | Some sender \<Rightarrow>
         (case signature1 tx of
            None \<Rightarrow> Inl MissingSignature
          | Some s \<Rightarrow>
              if s = [] then Inl MissingSignature
              else (case calculateHash_v1 lib tx of
                      None \<Rightarrow> Inr False
                    | Some txHash \<Rightarrow>
                        (case ecdsaVerify lib (take 64 (fromHex s)) (fromHex txHash)
                                (fromHex sender) of
                           None \<Rightarrow> Inr False
                         | Some ok \<Rightarrow> Inr ok))))"

section \<open>Callers\<close>

text \<open>
  A caller of the ledger performs a sequence of the two state-changing calls. An
  exception of \<open>addTransaction\<close> is caught by the caller, which goes on with the
  ledger as the call left it; a mining call that never returns ends the run.
\<close>

datatype operation =
    AddTransaction transaction
  | MinePendingTransactions string nat nat

fun apply_operation :: "crypto \<Rightarrow> blockchain \<Rightarrow> operation \<Rightarrow> blockchain option" where
  "apply_operation lib bc (AddTransaction tx) = Some (snd (addTransaction lib bc tx))"
| "apply_operation lib bc (MinePendingTransactions a nowTx nowBlock) =
     map_option snd (minePendingTransactions lib bc a nowTx nowBlock)"

fun run :: "crypto \<Rightarrow> blockchain \<Rightarrow> operation list \<Rightarrow> blockchain option" where
  "run lib bc [] = Some bc"
| "run lib bc (operation # rest) =
     (case apply_operation lib bc operation of
        None \<Rightarrow> None
      | Some bc' \<Rightarrow> run lib bc' rest)"


text \<open>All transactions of the chain, in block order.\<close>

definition history :: "blockchain \<Rightarrow> transaction list" where
  "history bc = concat (map transactions (chain bc))"

text \<open>The block that \<open>minePendingTransactions\<close> constructs and hands to the
  search, on a ledger whose chain is not empty.\<close>

definition candidate :: "crypto \<Rightarrow> blockchain \<Rightarrow> string \<Rightarrow> nat \<Rightarrow> nat \<Rightarrow> block" where
  "candidate lib bc a nowTx nowBlock =
     Block lib (length (chain bc)) nowBlock
       (pendingTransactions bc @ [Transaction None (Some a) (miningReward bc) nowTx])
       (hash (last (chain bc)))"


text \<open>How much of the history moves an address: the sum of the magnitudes of the
  amounts of the transactions that name it, once as sender and once as recipient.\<close>

definition volume :: "string option \<Rightarrow> transaction list \<Rightarrow> int" where
  "volume a txs =
     (\<Sum>t\<leftarrow>txs. (if fromAddress t = a then \<bar>amount t\<bar> else 0)
               + (if toAddress t = a then \<bar>amount t\<bar> else 0))"


text \<open>What holds of the blocks of every ledger a caller reaches, whatever the
  digest: each block after the first names the hash of its predecessor, holds only
  transactions that \<open>isChainValid\<close> accepts, and stores the hash of its own content
  if the search has incremented its nonce at all.\<close>

definition linked :: "crypto \<Rightarrow> blockchain \<Rightarrow> bool" where
  "linked lib bc \<longleftrightarrow>
     chain bc \<noteq> []
     \<and> (\<forall>t \<in> set (pendingTransactions bc). isValid lib t)
     \<and> (\<forall>i. 0 < i \<and> i < length (chain bc) \<longrightarrow>
            previousHash (chain bc ! i) = hash (chain bc ! (i - 1))
            \<and> transactions_valid lib (transactions (chain bc ! i))
            \<and> (nonce (chain bc ! i) \<noteq> 0 \<longrightarrow>
                  hash (chain bc ! i) = Block_calculateHash lib (chain bc ! i)))"

section \<open>A small instance of the library, for evaluation\<close>

text \<open>
  An instance on which the definitions can be evaluated by rewriting. The digest
  keeps one byte of its input, the last one, moved down by the code of the digit
  \<open>1\<close>, and pads it to 32 bytes; the public key of a private key is the key behind
  a tag byte, and a signature is the key followed by the message. It has the
  formats of the real library and none of its security.
\<close>

definition demo_sha256 :: "bytes \<Rightarrow> bytes" where
  "demo_sha256 x = (if x = [] then replicate 32 0 else (last x - 0x31) # replicate 31 0)"

definition demo_privateKeyVerify :: "bytes \<Rightarrow> bool" where
  "demo_privateKeyVerify sk = (length sk = 32 \<and> sk \<noteq> replicate 32 0)"

definition demo_publicKeyCreate :: "bytes \<Rightarrow> bytes option" where
  "demo_publicKeyCreate sk = (if demo_privateKeyVerify sk then Some (0x02 # sk) else None)"

definition demo_ecdsaSign :: "bytes \<Rightarrow> bytes \<Rightarrow> (bytes \<times> nat) option" where
  "demo_ecdsaSign m sk =
     (if length m = 32 \<and> demo_privateKeyVerify sk then Some (sk @ m, 0) else None)"

definition demo_ecdsaRecover :: "bytes \<Rightarrow> nat \<Rightarrow> bytes \<Rightarrow> bytes option" where
  "demo_ecdsaRecover sg recid m =
     (if length sg = 64 \<and> recid < 4 \<and> length m = 32 \<and> drop 32 sg = m
      then Some (0x02 # take 32 sg) else None)"

definition demo_ecdsaVerify :: "bytes \<Rightarrow> bytes \<Rightarrow> bytes \<Rightarrow> bool option" where
  "demo_ecdsaVerify sg m pub =
     (if length sg = 64 \<and> length m = 32 \<and> (length pub = 33 \<or> length pub = 65)
      then Some (pub = 0x02 # take 32 sg \<and> drop 32 sg = m) else None)"

definition demo_lib :: crypto where
  "demo_lib =
     \<lparr>sha256 = demo_sha256, privateKeyVerify = demo_privateKeyVerify,
      publicKeyCreate = demo_publicKeyCreate, ecdsaSign = demo_ecdsaSign,
      ecdsaRecover = demo_ecdsaRecover, ecdsaVerify = demo_ecdsaVerify\<rparr>"

definition demo_key :: bytes where
  "demo_key = replicate 32 0x11"

text \<open>The wallet that \<open>generate\<close> returns on the draws 0 (rejected) and \<open>demo_key\<close>.\<close>

definition demo_wallet :: wallet where
  "demo_wallet =
     \<lparr>privateKey = toHex demo_key, publicKey = toHex (0x02 # demo_key),
      address = digest_hex demo_lib (0x02 # demo_key)\<rparr>"





text \<open>A transfer of 50 from the address of \<open>demo_wallet\<close> to \<open>B\<close>, created at time
  5 and signed with the wallet's key, and a run of three calls: the wallet mines a
  block, the transfer is submitted, and \<open>B\<close> mines the next block.\<close>

definition demo_transfer :: transaction where
  "demo_transfer =
     (let tx = Transaction (Some (address demo_wallet)) (Some ''B'') 50 5 in
      case signTransaction demo_lib tx (KeyHex (privateKey demo_wallet)) of
        Inr stx \<Rightarrow> stx
      | Inl e \<Rightarrow> tx)"


section \<open>The digest of the host: SHA-256\<close>

text \<open>
  SHA-256 as FIPS 180-4 defines it, on 32-bit words held as naturals below \<open>2^32\<close>,
  so that the ledger can be evaluated on the digests the host computes. The
  signature functions of \<open>node_lib\<close> are those of the small instance; the
  evaluations below sign nothing.
\<close>

definition sha_add :: "nat \<Rightarrow> nat \<Rightarrow> nat" where
  "sha_add x y = (x + y) mod 4294967296"

definition sha_rotr :: "nat \<Rightarrow> nat \<Rightarrow> nat" where
  "sha_rotr n x = x div 2 ^ n + (x mod 2 ^ n) * 2 ^ (32 - n)"

definition sha_K :: "nat list" where
  "sha_K =
    [1116352408, 1899447441, 3049323471, 3921009573, 961987163, 1508970993, 2453635748, 2870763221,
     3624381080, 310598401, 607225278, 1426881987, 1925078388, 2162078206, 2614888103, 3248222580,
     3835390401, 4022224774, 264347078, 604807628, 770255983, 1249150122, 1555081692, 1996064986,
     2554220882, 2821834349, 2952996808, 3210313671, 3336571891, 3584528711, 113926993, 338241895,
     666307205, 773529912, 1294757372, 1396182291, 1695183700, 1986661051, 2177026350, 2456956037,
     2730485921, 2820302411, 3259730800, 3345764771, 3516065817, 3600352804, 4094571909, 275423344,
     430227734, 506948616, 659060556, 883997877, 958139571, 1322822218, 1537002063, 1747873779,
     1955562222, 2024104815, 2227730452, 2361852424, 2428436474, 2756734187, 3204031479, 3329325298]"

definition sha_H0 :: "nat list" where
  "sha_H0 =
    [1779033703, 3144134277, 1013904242, 2773480762, 1359893119, 2600822924, 528734635, 1541459225]"

definition sha_ssig0 :: "nat \<Rightarrow> nat" where
  "sha_ssig0 x = sha_rotr 7 x XOR sha_rotr 18 x XOR x div 2 ^ 3"

definition sha_ssig1 :: "nat \<Rightarrow> nat" where
  "sha_ssig1 x = sha_rotr 17 x XOR sha_rotr 19 x XOR x div 2 ^ 10"

definition sha_bsig0 :: "nat \<Rightarrow> nat" where
  "sha_bsig0 x = sha_rotr 2 x XOR sha_rotr 13 x XOR sha_rotr 22 x"

definition sha_bsig1 :: "nat \<Rightarrow> nat" where
  "sha_bsig1 x = sha_rotr 6 x XOR sha_rotr 11 x XOR sha_rotr 25 x"

definition sha_ch :: "nat \<Rightarrow> nat \<Rightarrow> nat \<Rightarrow> nat" where
  "sha_ch x y z = (x AND y) XOR ((4294967295 - x) AND z)"

definition sha_maj :: "nat \<Rightarrow> nat \<Rightarrow> nat \<Rightarrow> nat" where
  "sha_maj x y z = (x AND y) XOR (x AND z) XOR (y AND z)"

text \<open>The message schedule: one word out for every round constant, the window of
  the sixteen latest words moving on.\<close>

fun sha_schedule :: "nat list \<Rightarrow> nat list \<Rightarrow> nat list" where
  "sha_schedule (k # ks)
     (w0 # w1 # w2 # w3 # w4 # w5 # w6 # w7 # w8 # w9 # w10 # w11 # w12 # w13 # w14 # w15 # r) =
     w0 # sha_schedule ks
            [w1, w2, w3, w4, w5, w6, w7, w8, w9, w10, w11, w12, w13, w14, w15,
             sha_add (sha_add (sha_ssig1 w14) w9) (sha_add (sha_ssig0 w1) w0)]"
| "sha_schedule _ _ = []"

definition sha_t1 :: "nat \<Rightarrow> nat \<Rightarrow> nat \<Rightarrow> nat \<Rightarrow> nat \<Rightarrow> nat \<Rightarrow> nat" where
  "sha_t1 e f g h k w = sha_add (sha_add (sha_add h (sha_bsig1 e)) (sha_add (sha_ch e f g) k)) w"

definition sha_t2 :: "nat \<Rightarrow> nat \<Rightarrow> nat \<Rightarrow> nat" where
  "sha_t2 a b c = sha_add (sha_bsig0 a) (sha_maj a b c)"

definition sha_step :: "nat \<Rightarrow> nat \<Rightarrow> nat list \<Rightarrow> nat list" where
  "sha_step x y s =
     (case s of
        [a, b, c, d, e, f, g, h] \<Rightarrow> [sha_add x y, a, b, c, sha_add d x, e, f, g]
      | _ \<Rightarrow> s)"

fun sha_rounds :: "nat list \<Rightarrow> nat list \<Rightarrow> nat list \<Rightarrow> nat list" where
  "sha_rounds (k # ks) (w # ws) [a, b, c, d, e, f, g, h] =
     sha_rounds ks ws (sha_step (sha_t1 e f g h k w) (sha_t2 a b c) [a, b, c, d, e, f, g, h])"
| "sha_rounds _ _ s = s"

fun sha_words :: "bytes \<Rightarrow> nat list" where
  "sha_words (a # b # c # d # r) =
     (((unat a * 256 + unat b) * 256 + unat c) * 256 + unat d) # sha_words r"
| "sha_words _ = []"

definition sha_compress :: "nat list \<Rightarrow> bytes \<Rightarrow> nat list" where
  "sha_compress s blk = map2 sha_add s (sha_rounds sha_K (sha_schedule sha_K (sha_words blk)) s)"

fun sha_blocks :: "nat list \<Rightarrow> bytes list \<Rightarrow> nat list" where
  "sha_blocks s [] = s"
| "sha_blocks s (b # bs) = sha_blocks (sha_compress s b) bs"

fun sha_chunks :: "nat \<Rightarrow> bytes \<Rightarrow> bytes list" where
  "sha_chunks 0 bs = []"
| "sha_chunks (Suc n) bs = take 64 bs # sha_chunks n (drop 64 bs)"

definition sha_bytes :: "nat \<Rightarrow> bytes" where
  "sha_bytes x =
     [of_nat (x div 16777216), of_nat (x div 65536 mod 256), of_nat (x div 256 mod 256),
      of_nat (x mod 256)]"

definition sha_pad :: "bytes \<Rightarrow> bytes" where
  "sha_pad m =
     m @ [0x80] @ replicate ((119 - length m mod 64) mod 64) 0
     @ sha_bytes (8 * length m div 4294967296) @ sha_bytes (8 * length m mod 4294967296)"

definition SHA256 :: "bytes \<Rightarrow> bytes" where
  "SHA256 m =
     concat (map sha_bytes (sha_blocks sha_H0 (sha_chunks (length (sha_pad m) div 64) (sha_pad m))))"

definition node_lib :: crypto where
  "node_lib = demo_lib\<lparr>sha256 := SHA256\<rparr>"

text \<open>
  A ledger created at time 1700000004159 on which \<open>A\<close> mines the first block, the
  reward transaction created at 1700000064295 and the block at 1700000064296; the
  blocks below are what the calls leave in the chain.
\<close>

definition node_genesis :: block where
  "node_genesis =
     \<lparr>index = 0, timestamp = 1700000004159, transactions = [], previousHash = ''0'',
      hash = ''8afb516b5fd40acbee7e908b0d1c0f346679927d16aa79c590d14d74950b932e'',
      nonce = 0\<rparr>"

definition node_block :: block where
  "node_block =
     \<lparr>index = 1, timestamp = 1700000064296,
      transactions = [Transaction None (Some ''A'') 100 1700000064295],
      previousHash = ''8afb516b5fd40acbee7e908b0d1c0f346679927d16aa79c590d14d74950b932e'',
      hash = ''007ee8a42d5d3513be1b582eb82675016a293dc7c92bd8f529b9a84ed6e564a2'',
      nonce = 0\<rparr>"

definition node_ledger :: blockchain where
  "node_ledger =
     \<lparr>chain = [node_genesis, node_block], difficulty = 2, pendingTransactions = [],
      miningReward = 100\<rparr>"

text \<open>The number of zeros a hash begins with.\<close>

definition leading_zeros :: "string \<Rightarrow> nat" where
  "leading_zeros h = length (takeWhile (\<lambda>c. c = CHR ''0'') h)"

section \<open>Properties of the encodings\<close>

lemma hexval_hexdigit: "n < 16 \<Longrightarrow> hexval (hexdigit n) = Some n"
proof -
  assume "n < 16"
  then have "n \<in> set [0..<16]" by simp
  then show ?thesis
    by (simp add: upt_rec hexval_def hexdigit_def) (elim disjE; simp)
qed

lemma fromHex_toHex: "fromHex (toHex bs) = bs"
proof (induction bs)
  case Nil
  show ?case by (simp add: toHex_def)
next
  case (Cons b bs)
  have lo: "unat b mod 16 < 16" by simp
  have "unat b < 256" using unsigned_less [of b] by simp
  then have hi: "unat b div 16 < 16" by simp
  have "(of_nat (16 * (unat b div 16) + unat b mod 16) :: 8 word) = b"
    by simp
  with Cons show ?case
    using hexval_hexdigit [OF lo] hexval_hexdigit [OF hi]
    by (simp add: toHex_def)
qed

lemma length_toHex: "length (toHex bs) = 2 * length bs"
  by (induction bs) (simp_all add: toHex_def)

lemma toHex_eq_Nil: "toHex bs = [] \<longleftrightarrow> bs = []"
  using length_toHex [of bs] by (metis length_0_conv mult_is_0 zero_neq_numeral)

section \<open>The small instance\<close>

lemma demo_lib_sel [simp]:
  "sha256 demo_lib = demo_sha256" "privateKeyVerify demo_lib = demo_privateKeyVerify"
  "publicKeyCreate demo_lib = demo_publicKeyCreate" "ecdsaSign demo_lib = demo_ecdsaSign"
  "ecdsaRecover demo_lib = demo_ecdsaRecover" "ecdsaVerify demo_lib = demo_ecdsaVerify"
  by (simp_all add: demo_lib_def)

lemma demo_ecdsa:
  "privateKeyVerify demo_lib sk \<Longrightarrow> length sk = 32 \<Longrightarrow> length m = 32 \<Longrightarrow>
     \<exists>pub sg recid. publicKeyCreate demo_lib sk = Some pub \<and> ecdsaSign demo_lib m sk = Some (sg, recid)
          \<and> sg \<noteq> [] \<and> ecdsaRecover demo_lib sg recid m = Some pub
          \<and> ecdsaVerify demo_lib sg m pub = Some True"
  by (auto simp: demo_publicKeyCreate_def demo_ecdsaSign_def demo_ecdsaRecover_def
      demo_ecdsaVerify_def)

lemma demo_digest_len: "length (sha256 demo_lib x) = 32"
  by (simp add: demo_sha256_def)

lemma demo_key_len: "privateKeyVerify demo_lib sk \<Longrightarrow> length sk = 32"
  by (simp add: demo_privateKeyVerify_def)

lemma demo_key_ok: "demo_privateKeyVerify demo_key"
  by (simp add: demo_privateKeyVerify_def demo_key_def replicate_eq_replicate)

lemma demo_generate:
  "generate demo_lib [replicate 32 0, demo_key] = Some (Inr demo_wallet)"
  by (simp add: demo_key_ok demo_publicKeyCreate_def demo_wallet_def)
    (simp add: demo_privateKeyVerify_def)

lemma last_utf8: "s \<noteq> [] \<Longrightarrow> last (utf8 s) = of_nat (of_char (last s))"
  by (simp add: utf8_def last_map)

lemma show_nat_1 [simp]: "show_nat (Suc 0) = ''1''"
  by (simp add: show_nat.simps hexdigit_def)

lemma toHex_zeros: "toHex (replicate n 0) = replicate (2 * n) CHR ''0''"
  by (induction n) (simp_all add: toHex_def hexdigit_def)

lemma toHex_Cons: "toHex (b # bs) = hexdigit (unat b div 16) # hexdigit (unat b mod 16) # toHex bs"
  by (simp add: toHex_def)

lemma demo_hash_undefined:
  "digest_hex demo_lib (utf8 (Block_preimage i ts txs prev None)) = ''33'' @ replicate 62 CHR ''0''"
proof -
  have "last (utf8 (Block_preimage i ts txs prev None)) = 0x64"
    by (simp add: last_utf8 Block_preimage_def)
  moreover have "utf8 (Block_preimage i ts txs prev None) \<noteq> []"
    by (simp add: utf8_def Block_preimage_def)
  ultimately have "demo_sha256 (utf8 (Block_preimage i ts txs prev None)) = 0x33 # replicate 31 0"
    by (simp add: demo_sha256_def)
  then show ?thesis
    by (simp add: digest_hex_def toHex_Cons toHex_zeros hexdigit_def)
qed

lemma demo_hash_nonce_1:
  "digest_hex demo_lib (utf8 (Block_preimage i ts txs prev (Some 1))) = replicate 64 CHR ''0''"
proof -
  have "last (utf8 (Block_preimage i ts txs prev (Some 1))) = 0x31"
    by (simp add: last_utf8 Block_preimage_def)
  moreover have "utf8 (Block_preimage i ts txs prev (Some 1)) \<noteq> []"
    by (simp add: utf8_def Block_preimage_def)
  ultimately have "demo_sha256 (utf8 (Block_preimage i ts txs prev (Some 1))) = replicate 32 0"
    by (simp add: demo_sha256_def flip: replicate_Suc)
  then show ?thesis
    by (simp add: digest_hex_def toHex_zeros)
qed

lemma demo_next_nonce:
  "next_nonce demo_lib (Block demo_lib i ts txs prev)
     = \<lparr>index = i, timestamp = ts, transactions = txs, previousHash = prev,
        hash = replicate 64 CHR ''0'', nonce = 1\<rparr>"
  using demo_hash_nonce_1 [of i ts txs prev]
  by (simp add: next_nonce_def Block_def Block_calculateHash_def)

lemma demo_mineBlock:
  "mineBlock demo_lib 2 (Block demo_lib i ts txs prev)
     = Some \<lparr>index = i, timestamp = ts, transactions = txs, previousHash = prev,
             hash = replicate 64 CHR ''0'', nonce = 1\<rparr>"
proof -
  have 0: "\<not> meets 2 (hash (Block demo_lib i ts txs prev))"
    by (simp add: Block_def demo_hash_undefined meets_def numeral_2_eq_2)
  note 1 = demo_next_nonce [of i ts txs prev]
  have 2: "meets 2 (replicate 64 CHR ''0'')"
    by (simp add: meets_def)
  show ?thesis
    by (subst mineBlock.simps, simp only: 0 1 not_False_eq_True if_True)
       (subst mineBlock.simps, simp add: 2)
qed

section \<open>Signing and verifying\<close>

lemma Transaction_preimage_signature [simp]:
  "Transaction_preimage (tx\<lparr>signature := s\<rparr>) = Transaction_preimage tx"
  by (simp add: Transaction_preimage_def split: option.split)

lemma Transaction_sel [simp]:
  "fromAddress (Transaction f t a n) = f" "toAddress (Transaction f t a n) = t"
  "amount (Transaction f t a n) = a" "txTimestamp (Transaction f t a n) = n"
  "signature (Transaction f t a n) = None"
  by (simp_all add: Transaction_def)

lemma Transaction_calculateHash_signature [simp]:
  "Transaction_calculateHash lib (tx\<lparr>signature := s\<rparr>) = Transaction_calculateHash lib tx"
  by (simp add: Transaction_calculateHash_def)

lemma Transaction_calculateHash_sender:
  "fromAddress tx = Some f \<Longrightarrow> \<exists>s. Transaction_calculateHash lib tx = Some (digest_hex lib (utf8 s))"
  by (auto simp: Transaction_calculateHash_def Transaction_preimage_def split: option.split)

lemma generate_Inr:
  "generate lib draws = Some (Inr w) \<Longrightarrow>
     \<exists>sk pub. privateKeyVerify lib sk \<and> publicKeyCreate lib sk = Some pub
        \<and> privateKey w = toHex sk \<and> address w = digest_hex lib pub"
  by (induction draws) (auto split: if_splits option.splits)

lemma fromPrivateKey_Inr:
  "fromPrivateKey lib h = Inr w \<Longrightarrow>
     \<exists>pub. length (fromHex h) = 32 \<and> privateKeyVerify lib (fromHex h)
        \<and> publicKeyCreate lib (fromHex h) = Some pub
        \<and> privateKey w = h \<and> address w = digest_hex lib pub"
  by (auto simp: fromPrivateKey_def Let_def split: if_splits option.splits)

lemma sign_verify_key:
  assumes digest_len: "\<And>x. length (sha256 lib x) = 32"
    and ecdsa: "\<And>sk m. privateKeyVerify lib sk \<Longrightarrow> length sk = 32 \<Longrightarrow> length m = 32 \<Longrightarrow>
        \<exists>pub sg recid. publicKeyCreate lib sk = Some pub \<and> ecdsaSign lib m sk = Some (sg, recid)
          \<and> sg \<noteq> [] \<and> ecdsaRecover lib sg recid m = Some pub
          \<and> ecdsaVerify lib sg m pub = Some True"
    and key: "privateKeyVerify lib (fromHex h)" "length (fromHex h) = 32"
    and pub: "publicKeyCreate lib (fromHex h) = Some pub"
  shows "\<exists>signed. signTransaction lib (Transaction (Some (digest_hex lib pub)) to amt now) (KeyHex h)
            = Inr signed \<and> isValid lib signed"
proof -
  let ?tx = "Transaction (Some (digest_hex lib pub)) to amt now"
  from Transaction_calculateHash_sender [of ?tx _ lib] obtain s where
    txHash: "Transaction_calculateHash lib ?tx = Some (digest_hex lib (utf8 s))"
    by auto
  let ?m = "fromHex (digest_hex lib (utf8 s))"
  have m: "?m = sha256 lib (utf8 s)"
    by (simp add: digest_hex_def fromHex_toHex)
  then have len: "length ?m = 32" by (simp add: digest_len)
  from ecdsa [OF key len] pub obtain sg recid where
    sg: "ecdsaSign lib ?m (fromHex h) = Some (sg, recid)" "sg \<noteq> []"
      "ecdsaRecover lib sg recid ?m = Some pub" "ecdsaVerify lib sg ?m pub = Some True"
    by auto
  have h: "h \<noteq> []" using key(2) by auto
  let ?signed = "?tx\<lparr>signature := Some \<lparr>sigHex = toHex sg, recovery = recid\<rparr>\<rparr>"
  have "signTransaction lib ?tx (KeyHex h) = Inr ?signed"
    using key sg(1) h txHash by (simp add: signTransaction_def key_missing_def key_buffer_def)
  moreover have "isValid lib ?signed"
    using sg txHash by (simp add: isValid_def fromHex_toHex toHex_eq_Nil)
  ultimately show ?thesis by blast
qed

text \<open>
  Claim C1. Let the library be correct: digests have 32 bytes, valid private keys
  have 32 bytes, and for a valid key and a 32-byte message \<open>ecdsaSign\<close> returns a
  signature from which \<open>ecdsaRecover\<close> gives back the public key of the signing
  key and which \<open>ecdsaVerify\<close> accepts. Then for every wallet returned by
  \<open>generate\<close> or \<open>fromPrivateKey\<close>, every recipient, amount and creation time, the
  transaction sent from the wallet's address and signed with the wallet's private key
  is signed without error, and \<open>isValid\<close> is true of it.
\<close>

theorem sign_then_verify:
  assumes digest_len: "\<And>x. length (sha256 lib x) = 32"
    and key_len: "\<And>sk. privateKeyVerify lib sk \<Longrightarrow> length sk = 32"
    and ecdsa: "\<And>sk m. privateKeyVerify lib sk \<Longrightarrow> length sk = 32 \<Longrightarrow> length m = 32 \<Longrightarrow>
        \<exists>pub sg recid. publicKeyCreate lib sk = Some pub \<and> ecdsaSign lib m sk = Some (sg, recid)
          \<and> sg \<noteq> [] \<and> ecdsaRecover lib sg recid m = Some pub
          \<and> ecdsaVerify lib sg m pub = Some True"
    and wallet: "generate lib draws = Some (Inr w) \<or> fromPrivateKey lib privateKeyHex = Inr w"
  shows "\<exists>signed. signTransaction lib (Transaction (Some (address w)) to amt now)
                     (KeyHex (privateKey w)) = Inr signed
             \<and> isValid lib signed"
proof -
  from wallet obtain h pub where
    "privateKeyVerify lib (fromHex h)" "length (fromHex h) = 32"
    "publicKeyCreate lib (fromHex h) = Some pub" "privateKey w = h" "address w = digest_hex lib pub"
  proof
    assume "generate lib draws = Some (Inr w)"
    from generate_Inr [OF this] obtain sk pub where
      "privateKeyVerify lib sk" "publicKeyCreate lib sk = Some pub"
      "privateKey w = toHex sk" "address w = digest_hex lib pub" by blast
    then show ?thesis using that [of "toHex sk" pub] key_len [of sk] by (simp add: fromHex_toHex)
  next
    assume "fromPrivateKey lib privateKeyHex = Inr w"
    from fromPrivateKey_Inr [OF this] show ?thesis using that by blast
  qed
  then show ?thesis
    using sign_verify_key [of lib h pub to amt now] digest_len ecdsa by simp
qed

theorem sign_then_verify_witness:
  "generate demo_lib [replicate 32 0, demo_key] = Some (Inr demo_wallet)
   \<and> (\<exists>signed. signTransaction demo_lib
                  (Transaction (Some (address demo_wallet)) (Some ''bob'') 50 1700000000000)
                  (KeyHex (privateKey demo_wallet)) = Inr signed
        \<and> isValid demo_lib signed)"
  using sign_then_verify [of demo_lib "[replicate 32 0, demo_key]" demo_wallet
      "[]" "Some ''bob''" 50 1700000000000]
    demo_digest_len demo_key_len demo_ecdsa demo_generate
  by simp

text \<open>
  Claim C5. For a transaction with a sender, \<open>isValid\<close> is a boolean (the function
  is total: nothing is thrown). It is false when there is no signature or the
  signature string is empty; it is true exactly when the key recovered from
  signature, recovery id and hash exists, its digest is the sender, and the library
  verifies the signature against that key and the hash. An exception of recovery or
  verification (the value \<open>None\<close>) therefore gives false.
\<close>

theorem isValid_fail_closed:
  assumes "fromAddress tx = Some sender"
  shows "(signature tx = None \<longrightarrow> \<not> isValid lib tx)
    \<and> (\<forall>g. signature tx = Some g \<and> sigHex g = [] \<longrightarrow> \<not> isValid lib tx)
    \<and> (isValid lib tx \<longleftrightarrow>
         (\<exists>g txHash pub. signature tx = Some g \<and> sigHex g \<noteq> []
            \<and> Transaction_calculateHash lib tx = Some txHash
            \<and> ecdsaRecover lib (fromHex (sigHex g)) (recovery g) (fromHex txHash) = Some pub
            \<and> digest_hex lib pub = sender
            \<and> ecdsaVerify lib (fromHex (sigHex g)) (fromHex txHash) pub = Some True))"
  using assms by (auto simp: isValid_def Let_def split: option.splits)

theorem isValid_fail_closed_witness:
  "fromAddress (Transaction (Some ''alice'') (Some ''bob'') 5 7) = Some ''alice''
   \<and> signature (Transaction (Some ''alice'') (Some ''bob'') 5 7) = None
   \<and> \<not> isValid demo_lib (Transaction (Some ''alice'') (Some ''bob'') 5 7)"
  using isValid_fail_closed [of "Transaction (Some ''alice'') (Some ''bob'') 5 7" "''alice''" demo_lib]
  by simp

section \<open>Signing and verifying in the earlier revision\<close>

text \<open>
  In the earlier revision \<open>isValid\<close> throws on a transaction with a sender and no
  signature, and a transaction signed with the key of a wallet and sent from the
  wallet's address is not valid: the address is the 32-byte digest of the public key,
  and the library rejects a key of that length. The later revision recovers the key
  from the signature instead.
\<close>

lemma isValid_v1_throws:
  "fromAddress1 tx = Some sender \<Longrightarrow> signature1 tx = None \<or> signature1 tx = Some [] \<Longrightarrow>
     isValid_v1 lib tx = Inl MissingSignature"
  by (auto simp: isValid_v1_def)

lemma calculateHash_v1_signature [simp]:
  "calculateHash_v1 lib (tx\<lparr>signature1 := s\<rparr>) = calculateHash_v1 lib tx"
  by (simp add: calculateHash_v1_def split: option.split)

lemma sign_then_verify_v1:
  assumes digest_len: "\<And>x. length (sha256 lib x) = 32"
    and key_format: "\<And>sg m pub. length pub \<noteq> 33 \<Longrightarrow> length pub \<noteq> 65 \<Longrightarrow> ecdsaVerify lib sg m pub = None"
    and wallet: "generate lib draws = Some (Inr w) \<or> fromPrivateKey lib privateKeyHex = Inr w"
    and sign: "signTransaction_v1 lib (Transaction_v1 (Some (address w)) to amt now)
                    (KeyHex (privateKey w)) = Inr stx"
  shows "isValid_v1 lib stx = Inr False"
proof -
  from wallet obtain pub where "address w = digest_hex lib pub"
    using generate_Inr fromPrivateKey_Inr by blast
  then have "length (fromHex (address w)) = 32"
    by (simp add: digest_hex_def fromHex_toHex digest_len)
  then have none: "ecdsaVerify lib sg m (fromHex (address w)) = None" for sg m
    by (simp add: key_format)
  from sign obtain sg recid where
    s: "stx = (Transaction_v1 (Some (address w)) to amt now)
                   \<lparr>signature1 := Some (toHex (sg @ [of_nat recid]))\<rparr>"
    by (auto simp: signTransaction_v1_def Let_def split: if_splits option.splits)
  show ?thesis
    by (simp add: s isValid_v1_def Transaction_v1_def toHex_eq_Nil none split: option.split)
qed

lemma sign_then_verify_v1_demo:
  "\<exists>stx. signTransaction_v1 demo_lib (Transaction_v1 (Some (address demo_wallet)) (Some ''B'') 50 5)
            (KeyHex (privateKey demo_wallet)) = Inr stx
         \<and> isValid_v1 demo_lib stx = Inr False"
proof -
  let ?tx = "Transaction_v1 (Some (address demo_wallet)) (Some ''B'') 50 5"
  obtain txHash where txHash: "calculateHash_v1 demo_lib ?tx = Some txHash"
    and m: "length (fromHex txHash) = 32"
    by (simp add: calculateHash_v1_def Transaction_v1_def digest_hex_def fromHex_toHex
        demo_sha256_def)
  let ?m = "fromHex txHash"
  have key: "key_buffer (KeyHex (privateKey demo_wallet)) = demo_key"
    by (simp add: key_buffer_def demo_wallet_def fromHex_toHex)
  have present: "\<not> key_missing (KeyHex (privateKey demo_wallet))"
    by (simp add: key_missing_def demo_wallet_def toHex_eq_Nil demo_key_def)
  have "demo_ecdsaSign ?m demo_key = Some (demo_key @ ?m, 0)"
    using m demo_key_ok by (simp add: demo_ecdsaSign_def)
  then have stx: "signTransaction_v1 demo_lib ?tx (KeyHex (privateKey demo_wallet))
      = Inr (?tx\<lparr>signature1 := Some (toHex ((demo_key @ ?m) @ [of_nat 0]))\<rparr>)"
    using present txHash by (simp add: signTransaction_v1_def key Let_def)
  have "isValid_v1 demo_lib (?tx\<lparr>signature1 := Some (toHex ((demo_key @ ?m) @ [of_nat 0]))\<rparr>)
      = Inr False"
  proof (rule sign_then_verify_v1 [OF _ _ _ stx])
    show "length (sha256 demo_lib x) = 32" for x by (rule demo_digest_len)
    show "ecdsaVerify demo_lib sg m pub = None" if "length pub \<noteq> 33" "length pub \<noteq> 65" for sg m pub
      using that by (simp add: demo_ecdsaVerify_def)
    show "generate demo_lib [replicate 32 0, demo_key] = Some (Inr demo_wallet)
        \<or> fromPrivateKey demo_lib [] = Inr demo_wallet"
      using demo_generate by (rule disjI1)
  qed
  with stx show ?thesis by blast
qed

section \<open>Balances\<close>

lemma js_round_exact: "\<bar>x\<bar> \<le> 9007199254740992 \<Longrightarrow> js_round x = x"
proof -
  assume "\<bar>x\<bar> \<le> 9007199254740992"
  then have "nat \<bar>x\<bar> \<le> 9007199254740992" by linarith
  then show ?thesis by (simp add: js_round_def Let_def)
qed



lemma volume_simps [simp]:
  "volume a [] = 0"
  "volume a (t # ts) = (if fromAddress t = a then \<bar>amount t\<bar> else 0)
       + (if toAddress t = a then \<bar>amount t\<bar> else 0) + volume a ts"
  "volume a (xs @ ys) = volume a xs + volume a ys"
  by (simp_all add: volume_def)














section \<open>Admission of transactions\<close>

text \<open>
  Claim C9. A transaction whose sender is \<open>null\<close> fails the presence check:
  \<open>addTransaction\<close> throws the missing-address error and leaves the ledger as it
  was. So no call that succeeds has a \<open>null\<close> sender, and whenever the presence
  check is passed the later test \<open>fromAddress !== null\<close> is true: its other branch is
  never taken.
\<close>

theorem addTransaction_rejects_coinbase:
  "(fromAddress tx = None \<longrightarrow> addTransaction lib bc tx = (Inl MissingAddress, bc))
   \<and> (\<forall>r bc'. addTransaction lib bc tx = (Inr r, bc') \<longrightarrow> fromAddress tx \<noteq> None)
   \<and> (\<not> (absent (fromAddress tx) \<or> absent (toAddress tx)) \<longrightarrow> fromAddress tx \<noteq> None)"
  by (auto simp: addTransaction_def absent_def split: if_splits)

theorem addTransaction_rejects_coinbase_witness:
  "fromAddress (Transaction None (Some ''bob'') 5 7) = None
   \<and> addTransaction demo_lib (Blockchain demo_lib 0) (Transaction None (Some ''bob'') 5 7)
       = (Inl MissingAddress, Blockchain demo_lib 0)"
  using addTransaction_rejects_coinbase
    [of "Transaction None (Some ''bob'') 5 7" demo_lib "Blockchain demo_lib 0"]
  by simp

text \<open>
  Claim C6, as stated, fails: the presence check comes first, so a transaction of
  amount -5 without a sender is refused for its missing address, not for its amount.
\<close>

theorem addTransaction_invalid_amount_counterexample:
  "amount (Transaction None (Some ''bob'') (- 5) 7) \<le> 0
   \<and> fst (addTransaction demo_lib (Blockchain demo_lib 0) (Transaction None (Some ''bob'') (- 5) 7))
       = Inl MissingAddress
   \<and> fst (addTransaction demo_lib (Blockchain demo_lib 0) (Transaction None (Some ''bob'') (- 5) 7))
       \<noteq> Inl InvalidAmount"
  by (simp add: addTransaction_def absent_def)

text \<open>
  Claim C6, amended. A transaction of amount at most 0 whose sender and recipient are
  both present is refused with the invalid-amount error; one whose sender or
  recipient is absent is refused with the missing-address error; in both cases the
  ledger, and so the pending queue, is unchanged.
\<close>

theorem addTransaction_nonpositive_amount:
  assumes "amount tx \<le> 0"
  shows "(\<not> absent (fromAddress tx) \<and> \<not> absent (toAddress tx)
            \<longrightarrow> addTransaction lib bc tx = (Inl InvalidAmount, bc))
    \<and> (absent (fromAddress tx) \<or> absent (toAddress tx)
            \<longrightarrow> addTransaction lib bc tx = (Inl MissingAddress, bc))
    \<and> snd (addTransaction lib bc tx) = bc"
  using assms by (auto simp: addTransaction_def)

theorem addTransaction_nonpositive_amount_witness:
  "amount (Transaction (Some ''alice'') (Some ''bob'') (- 5) 7) \<le> 0
   \<and> addTransaction demo_lib (Blockchain demo_lib 0) (Transaction (Some ''alice'') (Some ''bob'') (- 5) 7)
       = (Inl InvalidAmount, Blockchain demo_lib 0)"
  using addTransaction_nonpositive_amount
    [of "Transaction (Some ''alice'') (Some ''bob'') (- 5) 7" demo_lib "Blockchain demo_lib 0"]
  by (simp add: absent_def)

section \<open>Proof of work\<close>

lemma next_nonce_sel [simp]:
  "index (next_nonce lib b) = index b" "timestamp (next_nonce lib b) = timestamp b"
  "transactions (next_nonce lib b) = transactions b"
  "previousHash (next_nonce lib b) = previousHash b"
  "nonce (next_nonce lib b) = nonce b + 1"
  by (simp_all add: next_nonce_def Let_def)

lemma Block_calculateHash_hash [simp]:
  "Block_calculateHash lib (b\<lparr>hash := h\<rparr>) = Block_calculateHash lib b"
  by (simp add: Block_calculateHash_def)

lemma hash_next_nonce:
  "hash (next_nonce lib b) = Block_calculateHash lib (next_nonce lib b)"
  by (simp add: next_nonce_def Let_def)

lemma mineBlock_solution:
  assumes "meets d (hash ((next_nonce lib ^^ k) b))"
  shows "\<exists>j\<le>k. mineBlock lib d b = Some ((next_nonce lib ^^ j) b)
           \<and> meets d (hash ((next_nonce lib ^^ j) b))
           \<and> (\<forall>i<j. \<not> meets d (hash ((next_nonce lib ^^ i) b)))"
  using assms
proof (induction k arbitrary: b)
  case 0
  then show ?case by (simp add: mineBlock.simps)
next
  case (Suc k)
  show ?case
  proof (cases "meets d (hash b)")
    case True
    then have "mineBlock lib d b = Some ((next_nonce lib ^^ 0) b)"
      by (simp add: mineBlock.simps)
    with True show ?thesis by (intro exI [of _ 0]) simp
  next
    case False
    from Suc.prems have "meets d (hash ((next_nonce lib ^^ k) (next_nonce lib b)))"
      by (simp add: funpow_swap1)
    from Suc.IH [OF this] obtain j where j: "j \<le> k"
      "mineBlock lib d (next_nonce lib b) = Some ((next_nonce lib ^^ j) (next_nonce lib b))"
      "meets d (hash ((next_nonce lib ^^ j) (next_nonce lib b)))"
      "\<forall>i<j. \<not> meets d (hash ((next_nonce lib ^^ i) (next_nonce lib b)))"
      by blast
    have "mineBlock lib d b = Some ((next_nonce lib ^^ Suc j) b)"
      using False j(2) by (subst mineBlock.simps) (simp add: funpow_swap1)
    moreover have "meets d (hash ((next_nonce lib ^^ Suc j) b))"
      using j(3) by (simp add: funpow_swap1)
    moreover have "\<forall>i<Suc j. \<not> meets d (hash ((next_nonce lib ^^ i) b))"
    proof (intro allI impI)
      fix i assume "i < Suc j"
      show "\<not> meets d (hash ((next_nonce lib ^^ i) b))"
      proof (cases i)
        case 0
        with False show ?thesis by simp
      next
        case (Suc i')
        with \<open>i < Suc j\<close> j(4) show ?thesis by (simp add: funpow_swap1)
      qed
    qed
    ultimately show ?thesis using j(1) by (intro exI [of _ "Suc j"]) simp
  qed
qed

lemma mineBlock_Some:
  assumes "mineBlock lib d b = Some b'"
  shows "\<exists>k. b' = (next_nonce lib ^^ k) b \<and> meets d (hash b')
           \<and> (\<forall>i<k. \<not> meets d (hash ((next_nonce lib ^^ i) b)))"
proof (rule mineBlock.raw_induct
    [where P = "\<lambda>lib d b b'. \<exists>k. b' = (next_nonce lib ^^ k) b \<and> meets d (hash b')
           \<and> (\<forall>i<k. \<not> meets d (hash ((next_nonce lib ^^ i) b)))", OF _ assms])
  fix mine :: "crypto \<Rightarrow> nat \<Rightarrow> block \<Rightarrow> block option" and lib d b b'
  assume IH: "\<And>lib d b b'. mine lib d b = Some b' \<Longrightarrow>
      \<exists>k. b' = (next_nonce lib ^^ k) b \<and> meets d (hash b')
           \<and> (\<forall>i<k. \<not> meets d (hash ((next_nonce lib ^^ i) b)))"
    and eq: "(if \<not> meets d (hash b) then mine lib d (next_nonce lib b) else Some b) = Some b'"
  show "\<exists>k. b' = (next_nonce lib ^^ k) b \<and> meets d (hash b')
           \<and> (\<forall>i<k. \<not> meets d (hash ((next_nonce lib ^^ i) b)))"
  proof (cases "meets d (hash b)")
    case True
    with eq have "b' = b" by simp
    with True show ?thesis by (intro exI [of _ 0]) simp
  next
    case False
    with eq have "mine lib d (next_nonce lib b) = Some b'" by simp
    from IH [OF this] obtain k where k: "b' = (next_nonce lib ^^ k) (next_nonce lib b)"
      "meets d (hash b')" "\<forall>i<k. \<not> meets d (hash ((next_nonce lib ^^ i) (next_nonce lib b)))"
      by blast
    have "\<forall>i<Suc k. \<not> meets d (hash ((next_nonce lib ^^ i) b))"
    proof (intro allI impI)
      fix i assume "i < Suc k"
      show "\<not> meets d (hash ((next_nonce lib ^^ i) b))"
      proof (cases i)
        case 0
        with False show ?thesis by simp
      next
        case (Suc i')
        with \<open>i < Suc k\<close> k(3) show ?thesis by (simp add: funpow_swap1)
      qed
    qed
    with k(1,2) show ?thesis by (intro exI [of _ "Suc k"]) (simp add: funpow_swap1)
  qed
qed

lemma funpow_next_nonce_sel [simp]:
  "index ((next_nonce lib ^^ k) b) = index b"
  "timestamp ((next_nonce lib ^^ k) b) = timestamp b"
  "transactions ((next_nonce lib ^^ k) b) = transactions b"
  "previousHash ((next_nonce lib ^^ k) b) = previousHash b"
  "nonce ((next_nonce lib ^^ k) b) = nonce b + k"
  by (induction k) simp_all

lemma hash_funpow_next_nonce:
  "0 < k \<Longrightarrow> hash ((next_nonce lib ^^ k) b) = Block_calculateHash lib ((next_nonce lib ^^ k) b)"
  by (cases k) (simp_all add: hash_next_nonce)

lemma Block_sel [simp]:
  "index (Block lib i ts txs prev) = i" "timestamp (Block lib i ts txs prev) = ts"
  "transactions (Block lib i ts txs prev) = txs" "previousHash (Block lib i ts txs prev) = prev"
  "nonce (Block lib i ts txs prev) = 0"
  by (simp_all add: Block_def)

lemma meets_length: "meets d h \<Longrightarrow> d \<le> length h"
  by (metis meets_def length_replicate length_take min.cobounded1 min_def)

text \<open>
  Claim C7, amended. When \<open>mineBlock\<close> returns, the first \<open>difficulty\<close> characters
  of the stored hash are zeros, so the hash has at least that many leading zeros
  (it may have more); with difficulty 0 the block is returned as it is, without any
  increment of the nonce.
\<close>

theorem mineBlock_leading_zeros:
  "(mineBlock lib d b = Some b' \<longrightarrow>
       take d (hash b') = replicate d CHR ''0'' \<and> d \<le> length (hash b'))
   \<and> mineBlock lib 0 b = Some b"
proof (intro conjI impI)
  assume "mineBlock lib d b = Some b'"
  from mineBlock_Some [OF this] have m: "meets d (hash b')" by blast
  then show "take d (hash b') = replicate d CHR ''0''" by (simp add: meets_def)
  from m show "d \<le> length (hash b')" by (rule meets_length)
next
  show "mineBlock lib 0 b = Some b"
    by (subst mineBlock.simps) (simp add: meets_def)
qed

theorem mineBlock_leading_zeros_witness:
  "mineBlock demo_lib 2 (Block demo_lib 1 2 [] ''00'')
     = Some \<lparr>index = 1, timestamp = 2, transactions = [], previousHash = ''00'',
             hash = replicate 64 CHR ''0'', nonce = 1\<rparr>
   \<and> take 2 (replicate 64 CHR ''0'') = replicate 2 CHR ''0''"
  using mineBlock_leading_zeros [of demo_lib 2 "Block demo_lib 1 2 [] ''00''"
      "\<lparr>index = 1, timestamp = 2, transactions = [], previousHash = ''00'',
        hash = replicate 64 CHR ''0'', nonce = 1\<rparr>"]
    demo_mineBlock [of 1 2 "[]" "''00''"]
  by simp

section \<open>Mining the pending transactions\<close>

lemma minePendingTransactions_unfold:
  "chain bc \<noteq> [] \<Longrightarrow>
   minePendingTransactions lib bc a nowTx nowBlock =
     (case mineBlock lib (difficulty bc) (candidate lib bc a nowTx nowBlock) of
        None \<Rightarrow> None
      | Some blk \<Rightarrow> Some (Inr blk, bc\<lparr>chain := chain bc @ [blk], pendingTransactions := []\<rparr>))"
  by (simp add: minePendingTransactions_def getLatestBlock_def candidate_def Let_def
      split: option.split)

lemma Blockchain_sel [simp]:
  "chain (Blockchain lib now0) = [createGenesisBlock lib now0]"
  "difficulty (Blockchain lib now0) = 2"
  "pendingTransactions (Blockchain lib now0) = []"
  "miningReward (Blockchain lib now0) = 100"
  by (simp_all add: Blockchain_def)

lemma transactions_genesis [simp]: "transactions (createGenesisBlock lib now0) = []"
  by (simp add: createGenesisBlock_def)

lemma candidate_sel [simp]:
  "index (candidate lib bc a nowTx nowBlock) = length (chain bc)"
  "transactions (candidate lib bc a nowTx nowBlock)
     = pendingTransactions bc @ [Transaction None (Some a) (miningReward bc) nowTx]"
  "previousHash (candidate lib bc a nowTx nowBlock) = hash (last (chain bc))"
  "timestamp (candidate lib bc a nowTx nowBlock) = nowBlock"
  "nonce (candidate lib bc a nowTx nowBlock) = 0"
  by (simp_all add: candidate_def)

lemma minePendingTransactions_Some:
  assumes "chain bc \<noteq> []"
    and "minePendingTransactions lib bc a nowTx nowBlock = Some (r, bc')"
  shows "\<exists>k. r = Inr ((next_nonce lib ^^ k) (candidate lib bc a nowTx nowBlock))
     \<and> bc' = bc\<lparr>chain := chain bc @ [(next_nonce lib ^^ k) (candidate lib bc a nowTx nowBlock)],
                pendingTransactions := []\<rparr>
     \<and> meets (difficulty bc) (hash ((next_nonce lib ^^ k) (candidate lib bc a nowTx nowBlock)))
     \<and> (\<forall>i<k. \<not> meets (difficulty bc) (hash ((next_nonce lib ^^ i) (candidate lib bc a nowTx nowBlock))))"
proof -
  from assms obtain blk where blk:
    "mineBlock lib (difficulty bc) (candidate lib bc a nowTx nowBlock) = Some blk"
    "r = Inr blk" "bc' = bc\<lparr>chain := chain bc @ [blk], pendingTransactions := []\<rparr>"
    by (auto simp: minePendingTransactions_unfold split: option.splits)
  from mineBlock_Some [OF blk(1)] blk(2,3) show ?thesis by blast
qed

text \<open>
  Claim C3. On a ledger whose chain is not empty, if some number of increments of
  the nonce gives the constructed block a hash that meets the difficulty, then
  \<open>minePendingTransactions\<close> returns: it returns the block it has appended, the chain
  is the former chain followed by that block, the queue is empty, difficulty and
  reward are unchanged, the transactions of the block are the former queue followed
  by the reward transaction (no sender, the reward address, the mining reward), its
  index is the former length of the chain and its previous hash the hash of the
  former last block. On a fresh ledger the balance of the reward address is then 100
  and the chain has length 2. If no number of increments meets the difficulty the
  call never returns.
\<close>

theorem minePendingTransactions_appends:
  assumes "chain bc \<noteq> []"
  shows "((\<exists>k. meets (difficulty bc) (hash ((next_nonce lib ^^ k) (candidate lib bc a nowTx nowBlock))))
          \<longrightarrow> (\<exists>blk bc'. minePendingTransactions lib bc a nowTx nowBlock = Some (Inr blk, bc')
                 \<and> chain bc' = chain bc @ [blk] \<and> pendingTransactions bc' = []
                 \<and> difficulty bc' = difficulty bc \<and> miningReward bc' = miningReward bc
                 \<and> transactions blk
                     = pendingTransactions bc @ [Transaction None (Some a) (miningReward bc) nowTx]
                 \<and> index blk = length (chain bc)
                 \<and> previousHash blk = hash (last (chain bc))
                 \<and> (bc = Blockchain lib now0
                      \<longrightarrow> getBalanceOfAddress bc' (Some a) = 100 \<and> length (chain bc') = 2)))
     \<and> ((\<forall>k. \<not> meets (difficulty bc) (hash ((next_nonce lib ^^ k) (candidate lib bc a nowTx nowBlock))))
          \<longrightarrow> minePendingTransactions lib bc a nowTx nowBlock = None)"
proof (intro conjI impI)
  let ?c = "candidate lib bc a nowTx nowBlock"
  assume "\<exists>k. meets (difficulty bc) (hash ((next_nonce lib ^^ k) ?c))"
  then obtain k where "meets (difficulty bc) (hash ((next_nonce lib ^^ k) ?c))" ..
  from mineBlock_solution [OF this] obtain j where
    j: "mineBlock lib (difficulty bc) ?c = Some ((next_nonce lib ^^ j) ?c)" by blast
  let ?blk = "(next_nonce lib ^^ j) ?c"
  let ?bc' = "bc\<lparr>chain := chain bc @ [?blk], pendingTransactions := []\<rparr>"
  have ret: "minePendingTransactions lib bc a nowTx nowBlock = Some (Inr ?blk, ?bc')"
    using assms j by (simp add: minePendingTransactions_unfold)
  have fresh: "bc = Blockchain lib now0
      \<longrightarrow> getBalanceOfAddress ?bc' (Some a) = 100 \<and> length (chain ?bc') = 2"
    by (auto simp: getBalanceOfAddress_def js_add_def js_round_exact)
  from ret fresh
  show "\<exists>blk bc'. minePendingTransactions lib bc a nowTx nowBlock = Some (Inr blk, bc')
                 \<and> chain bc' = chain bc @ [blk] \<and> pendingTransactions bc' = []
                 \<and> difficulty bc' = difficulty bc \<and> miningReward bc' = miningReward bc
                 \<and> transactions blk
                     = pendingTransactions bc @ [Transaction None (Some a) (miningReward bc) nowTx]
                 \<and> index blk = length (chain bc)
                 \<and> previousHash blk = hash (last (chain bc))
                 \<and> (bc = Blockchain lib now0
                      \<longrightarrow> getBalanceOfAddress bc' (Some a) = 100 \<and> length (chain bc') = 2)"
    by (intro exI [of _ ?blk] exI [of _ ?bc']) simp
next
  let ?c = "candidate lib bc a nowTx nowBlock"
  assume none: "\<forall>k. \<not> meets (difficulty bc) (hash ((next_nonce lib ^^ k) ?c))"
  show "minePendingTransactions lib bc a nowTx nowBlock = None"
  proof (cases "minePendingTransactions lib bc a nowTx nowBlock")
    case None
    then show ?thesis .
  next
    case (Some p)
    obtain r bc' where "p = (r, bc')" by (cases p)
    with Some minePendingTransactions_Some [OF assms, of lib a nowTx nowBlock r bc'] none
    show ?thesis by blast
  qed
qed

lemma demo_candidate_solved:
  "meets 2 (hash ((next_nonce demo_lib ^^ 1) (candidate demo_lib bc a nowTx nowBlock)))"
  by (simp add: candidate_def demo_next_nonce meets_def)

theorem minePendingTransactions_appends_witness:
  "\<exists>blk bc'. minePendingTransactions demo_lib (Blockchain demo_lib 0) ''A'' 1 2 = Some (Inr blk, bc')
      \<and> chain bc' = chain (Blockchain demo_lib 0) @ [blk] \<and> pendingTransactions bc' = []
      \<and> transactions blk = [Transaction None (Some ''A'') 100 1]
      \<and> index blk = 1
      \<and> getBalanceOfAddress bc' (Some ''A'') = 100 \<and> length (chain bc') = 2"
proof -
  have "chain (Blockchain demo_lib 0) \<noteq> []" by simp
  from minePendingTransactions_appends [OF this, of demo_lib "''A''" 1 2 0]
    demo_candidate_solved [of "Blockchain demo_lib 0" "''A''" 1 2]
  show ?thesis by (auto simp del: funpow.simps)
qed

section \<open>Ledgers reached by a caller\<close>

lemma addTransaction_cases:
  "addTransaction lib bc tx = (r, bc') \<Longrightarrow>
     bc' = bc \<or> (bc' = bc\<lparr>pendingTransactions := pendingTransactions bc @ [tx]\<rparr>
                 \<and> \<not> absent (fromAddress tx) \<and> \<not> absent (toAddress tx)
                 \<and> 0 < amount tx \<and> isValid lib tx)"
  by (auto simp: addTransaction_def absent_def split: if_splits)

lemma history_update [simp]:
  "history (bc\<lparr>chain := c\<rparr>) = concat (map transactions c)"
  "history (bc\<lparr>pendingTransactions := p\<rparr>) = history bc"
  by (simp_all add: history_def)










lemma demo_sign:
  "signTransaction demo_lib (Transaction (Some (address demo_wallet)) (Some ''B'') 50 5)
     (KeyHex (privateKey demo_wallet)) = Inr demo_transfer
   \<and> isValid demo_lib demo_transfer"
proof -
  have addr: "address demo_wallet = digest_hex demo_lib (0x02 # demo_key)"
    by (simp add: demo_wallet_def)
  have "\<exists>stx. signTransaction demo_lib (Transaction (Some (address demo_wallet)) (Some ''B'') 50 5)
            (KeyHex (privateKey demo_wallet)) = Inr stx \<and> isValid demo_lib stx"
    unfolding addr
  proof (rule sign_verify_key)
    show "length (sha256 demo_lib x) = 32" for x by (rule demo_digest_len)
    show "\<exists>pub sg recid. publicKeyCreate demo_lib sk = Some pub
          \<and> ecdsaSign demo_lib m sk = Some (sg, recid)
          \<and> sg \<noteq> [] \<and> ecdsaRecover demo_lib sg recid m = Some pub
          \<and> ecdsaVerify demo_lib sg m pub = Some True"
      if "privateKeyVerify demo_lib sk" "length sk = 32" "length m = 32" for sk m
      using that by (rule demo_ecdsa)
    show "privateKeyVerify demo_lib (fromHex (privateKey demo_wallet))"
      by (simp add: demo_wallet_def fromHex_toHex demo_key_ok)
    show "length (fromHex (privateKey demo_wallet)) = 32"
      by (simp add: demo_wallet_def fromHex_toHex demo_key_def)
    show "publicKeyCreate demo_lib (fromHex (privateKey demo_wallet)) = Some (0x02 # demo_key)"
      by (simp add: demo_wallet_def fromHex_toHex demo_publicKeyCreate_def demo_key_ok)
  qed
  then show ?thesis by (auto simp: demo_transfer_def)
qed


lemma signTransaction_sel:
  "signTransaction lib tx k = Inr stx \<Longrightarrow>
     fromAddress stx = fromAddress tx \<and> toAddress stx = toAddress tx \<and> amount stx = amount tx
     \<and> txTimestamp stx = txTimestamp tx"
  by (auto simp: signTransaction_def Let_def split: if_splits option.splits)

lemma demo_transfer_sel [simp]:
  "fromAddress demo_transfer = Some (address demo_wallet)" "toAddress demo_transfer = Some ''B''"
  "amount demo_transfer = 50"
  using demo_sign signTransaction_sel [of demo_lib _ _ demo_transfer] by auto





section \<open>The chain of a reached ledger\<close>

lemma transactions_valid_iff:
  "transactions_valid lib txs \<longleftrightarrow> (\<forall>t \<in> set txs. isValid lib t \<or> fromAddress t = None)"
  by (induction txs) auto

lemma blocks_valid_iff:
  "blocks_valid lib p bs \<longleftrightarrow>
     (\<forall>i < length bs. hash (bs ! i) = Block_calculateHash lib (bs ! i)
        \<and> previousHash (bs ! i) = hash ((p # bs) ! i)
        \<and> transactions_valid lib (transactions (bs ! i)))"
proof (induction bs arbitrary: p)
  case Nil
  show ?case by simp
next
  case (Cons b bs)
  have less_Suc: "(\<forall>i < Suc n. P i) \<longleftrightarrow> P 0 \<and> (\<forall>i < n. P (Suc i))" for P n
    by (metis less_Suc_eq_0_disj)
  show ?case
    by (simp add: Cons.IH less_Suc del: transactions_valid.simps)
qed

lemma isChainValid_iff:
  "chain bc \<noteq> [] \<Longrightarrow>
   isChainValid lib bc \<longleftrightarrow>
     (\<forall>i. 0 < i \<and> i < length (chain bc) \<longrightarrow>
        hash (chain bc ! i) = Block_calculateHash lib (chain bc ! i)
        \<and> previousHash (chain bc ! i) = hash (chain bc ! (i - 1))
        \<and> transactions_valid lib (transactions (chain bc ! i)))"
proof -
  assume "chain bc \<noteq> []"
  then obtain g rest where c: "chain bc = g # rest" by (cases "chain bc") auto
  have "(\<forall>i. 0 < i \<and> i < Suc (length rest) \<longrightarrow> P i) \<longleftrightarrow> (\<forall>i < length rest. P (Suc i))" for P
    by (metis Suc_less_eq Suc_pred zero_less_Suc)
  then show ?thesis
    by (simp add: isChainValid_def c blocks_valid_iff)
qed

lemma linked_fresh: "linked lib (Blockchain lib now0)"
  by (simp add: linked_def)

lemma isValid_coinbase [simp]: "isValid lib (Transaction None to amt now)"
  by (simp add: isValid_def)

lemma linked_step:
  assumes "linked lib bc" and "apply_operation lib bc operation = Some bc'"
  shows "linked lib bc'"
proof (cases operation)
  case (AddTransaction tx)
  with assms(2) have "bc' = snd (addTransaction lib bc tx)" by simp
  then have "bc' = bc \<or> (bc' = bc\<lparr>pendingTransactions := pendingTransactions bc @ [tx]\<rparr>
                 \<and> isValid lib tx)"
    using addTransaction_cases [of lib bc tx "fst (addTransaction lib bc tx)" bc'] by auto
  with assms(1) show ?thesis
    by (auto simp: linked_def)
next
  case (MinePendingTransactions a nowTx nowBlock)
  with assms(2) obtain r where "minePendingTransactions lib bc a nowTx nowBlock = Some (r, bc')"
    by auto
  moreover from assms(1) have ne: "chain bc \<noteq> []" by (simp add: linked_def)
  ultimately obtain k where
    bc': "bc' = bc\<lparr>chain := chain bc @ [(next_nonce lib ^^ k) (candidate lib bc a nowTx nowBlock)],
                pendingTransactions := []\<rparr>"
    using minePendingTransactions_Some by blast
  let ?blk = "(next_nonce lib ^^ k) (candidate lib bc a nowTx nowBlock)"
  have txs: "transactions_valid lib (transactions ?blk)"
    using assms(1) by (auto simp: transactions_valid_iff linked_def)
  have prev: "previousHash ?blk = hash (chain bc ! (length (chain bc) - 1))"
    using ne by (simp add: last_conv_nth)
  have cons: "nonce ?blk \<noteq> 0 \<longrightarrow> hash ?blk = Block_calculateHash lib ?blk"
    using hash_funpow_next_nonce [of k lib "candidate lib bc a nowTx nowBlock"] by simp
  show ?thesis
    unfolding linked_def
  proof (intro conjI allI impI)
    show "chain bc' \<noteq> []" by (simp add: bc')
    show "\<forall>t \<in> set (pendingTransactions bc'). isValid lib t" by (simp add: bc')
  next
    fix i assume i: "0 < i \<and> i < length (chain bc')"
    show "previousHash (chain bc' ! i) = hash (chain bc' ! (i - 1))"
      using i assms(1) prev ne
      by (cases "i < length (chain bc)") (auto simp: bc' nth_append linked_def less_Suc_eq)
    show "transactions_valid lib (transactions (chain bc' ! i))"
      using i assms(1) txs
      by (cases "i < length (chain bc)")
         (auto simp: bc' nth_append linked_def less_Suc_eq simp del: funpow_next_nonce_sel)
    show "hash (chain bc' ! i) = Block_calculateHash lib (chain bc' ! i)"
      if "nonce (chain bc' ! i) \<noteq> 0"
      using i assms(1) cons that
      by (cases "i < length (chain bc)")
         (auto simp: bc' nth_append linked_def less_Suc_eq simp del: funpow_next_nonce_sel)
  qed
qed

lemma run_linked:
  "linked lib bc \<Longrightarrow> run lib bc ops = Some bc' \<Longrightarrow> linked lib bc'"
proof (induction ops arbitrary: bc)
  case Nil
  then show ?case by simp
next
  case (Cons operation ops)
  from Cons.prems(2) obtain bc1 where
    1: "apply_operation lib bc operation = Some bc1" and 2: "run lib bc1 ops = Some bc'"
    by (auto split: option.splits)
  from linked_step [OF Cons.prems(1) 1] Cons.IH [OF _ 2] show ?case by blast
qed

text \<open>
  On every ledger a caller reaches, each block after the first names the hash of its
  predecessor, and \<open>isChainValid\<close> is true exactly when each of these blocks
  stores the hash of its own content, which a block does as soon as the search has
  incremented its nonce. A block that the search returned untouched keeps the hash
  of the constructor.
\<close>

lemma reached_chain:
  assumes "run lib (Blockchain lib now0) ops = Some bc"
  shows "\<forall>i. 0 < i \<and> i < length (chain bc) \<longrightarrow>
           previousHash (chain bc ! i) = hash (chain bc ! (i - 1))"
    and "isChainValid lib bc \<longleftrightarrow>
           (\<forall>i. 0 < i \<and> i < length (chain bc) \<longrightarrow>
              hash (chain bc ! i) = Block_calculateHash lib (chain bc ! i))"
    and "\<forall>i. 0 < i \<and> i < length (chain bc) \<and> nonce (chain bc ! i) \<noteq> 0 \<longrightarrow>
           hash (chain bc ! i) = Block_calculateHash lib (chain bc ! i)"
proof -
  from run_linked [OF linked_fresh assms] have l: "linked lib bc" .
  then show "\<forall>i. 0 < i \<and> i < length (chain bc) \<longrightarrow>
           previousHash (chain bc ! i) = hash (chain bc ! (i - 1))"
    by (simp add: linked_def)
  from l show "\<forall>i. 0 < i \<and> i < length (chain bc) \<and> nonce (chain bc ! i) \<noteq> 0 \<longrightarrow>
           hash (chain bc ! i) = Block_calculateHash lib (chain bc ! i)"
    by (simp add: linked_def)
  from l have "chain bc \<noteq> []" by (simp add: linked_def)
  from isChainValid_iff [OF this] l
  show "isChainValid lib bc \<longleftrightarrow>
           (\<forall>i. 0 < i \<and> i < length (chain bc) \<longrightarrow>
              hash (chain bc ! i) = Block_calculateHash lib (chain bc ! i))"
    unfolding linked_def by blast
qed

section \<open>Evaluating the digest\<close>

lemma replicate_numeral: "replicate (numeral k) x = x # replicate (pred_numeral k) x"
  by (simp add: numeral_eq_Suc)

lemma sha_chunks_numeral:
  "sha_chunks (numeral k) bs = take 64 bs # sha_chunks (pred_numeral k) (drop 64 bs)"
  by (simp add: numeral_eq_Suc)

lemmas sha_eval = sha_add_def sha_rotr_def sha_ssig0_def sha_ssig1_def sha_bsig0_def sha_bsig1_def
  sha_ch_def sha_maj_def sha_t1_def sha_t2_def sha_step_def sha_K_def

lemma node_lib_sha256 [simp]: "sha256 node_lib = SHA256"
  by (simp add: node_lib_def)

lemmas sha_digest_eval = digest_hex_def SHA256_def sha_pad_def sha_bytes_def sha_H0_def utf8_def
  replicate_numeral sha_chunks_numeral toHex_def hexdigit_def
  Block_preimage_def show_nat.simps stringify_def json_transaction_def json_signature_def
  json_address_def json_string_def json_escape_char_def show_int_def

text \<open>The test vector of the standard, then the digests of the texts that the blocks
  of the two evaluations below are hashed from, one compression at a time.\<close>

lemma sha_abc_1:
  "sha_compress
    [1779033703, 3144134277, 1013904242, 2773480762, 1359893119, 2600822924, 528734635, 1541459225]
    [97, 98, 99, 128, 0, 0, 0, 0, 0, 0, 0, 0, 0, 0, 0, 0,
     0, 0, 0, 0, 0, 0, 0, 0, 0, 0, 0, 0, 0, 0, 0, 0,
     0, 0, 0, 0, 0, 0, 0, 0, 0, 0, 0, 0, 0, 0, 0, 0,
     0, 0, 0, 0, 0, 0, 0, 0, 0, 0, 0, 0, 0, 0, 0, 24]
   = [3128432319, 2399260650, 1094795486, 1571693091, 2953011619, 2518121116, 3021012833, 4060091821]"
  by (simp add: sha_compress_def sha_eval)

lemma digest_abc:
  "digest_hex node_lib (utf8 (''abc''))
     = ''ba7816bf8f01cfea414140de5dae2223b00361a396177a9cb410ff61f20015ad''"
  by (simp add: sha_digest_eval sha_abc_1)

lemma sha_genesis_undefined_1:
  "sha_compress
    [1779033703, 3144134277, 1013904242, 2773480762, 1359893119, 2600822924, 528734635, 1541459225]
    [49, 55, 48, 48, 48, 48, 48, 48, 48, 52, 49, 53, 57, 91, 93, 48,
     117, 110, 100, 101, 102, 105, 110, 101, 100, 128, 0, 0, 0, 0, 0, 0,
     0, 0, 0, 0, 0, 0, 0, 0, 0, 0, 0, 0, 0, 0, 0, 0,
     0, 0, 0, 0, 0, 0, 0, 0, 0, 0, 0, 0, 0, 0, 0, 200]
   = [2331726187, 1607731915, 4001271947, 219942708, 1719243389, 380271045, 2429635956, 2500563758]"
  by (simp add: sha_compress_def sha_eval)

lemma digest_genesis_undefined:
  "digest_hex node_lib (utf8 (Block_preimage 0 1700000004159 [] ''0'' None))
     = ''8afb516b5fd40acbee7e908b0d1c0f346679927d16aa79c590d14d74950b932e''"
  by (simp add: sha_digest_eval sha_genesis_undefined_1)

lemma sha_genesis_nonce_0_1:
  "sha_compress
    [1779033703, 3144134277, 1013904242, 2773480762, 1359893119, 2600822924, 528734635, 1541459225]
    [49, 55, 48, 48, 48, 48, 48, 48, 48, 52, 49, 53, 57, 91, 93, 48,
     48, 128, 0, 0, 0, 0, 0, 0, 0, 0, 0, 0, 0, 0, 0, 0,
     0, 0, 0, 0, 0, 0, 0, 0, 0, 0, 0, 0, 0, 0, 0, 0,
     0, 0, 0, 0, 0, 0, 0, 0, 0, 0, 0, 0, 0, 0, 0, 136]
   = [4014984784, 1359460099, 536712318, 3789158022, 4189405794, 2244977612, 973853349, 856400804]"
  by (simp add: sha_compress_def sha_eval)

lemma digest_genesis_nonce_0:
  "digest_hex node_lib (utf8 (Block_preimage 0 1700000004159 [] ''0'' (Some 0)))
     = ''ef4fce505107b7031ffd947ee1d9f686f9b5426285cfa3cc3a0bd2a5330ba3a4''"
  by (simp add: sha_digest_eval sha_genesis_nonce_0_1)

lemma sha_genesis_nonce_1_1:
  "sha_compress
    [1779033703, 3144134277, 1013904242, 2773480762, 1359893119, 2600822924, 528734635, 1541459225]
    [49, 55, 48, 48, 48, 48, 48, 48, 48, 52, 49, 53, 57, 91, 93, 48,
     49, 128, 0, 0, 0, 0, 0, 0, 0, 0, 0, 0, 0, 0, 0, 0,
     0, 0, 0, 0, 0, 0, 0, 0, 0, 0, 0, 0, 0, 0, 0, 0,
     0, 0, 0, 0, 0, 0, 0, 0, 0, 0, 0, 0, 0, 0, 0, 136]
   = [320119, 2148407470, 3802307797, 1075627100, 3251444309, 560655882, 2813407026, 53102173]"
  by (simp add: sha_compress_def sha_eval)

lemma digest_genesis_nonce_1:
  "digest_hex node_lib (utf8 (Block_preimage 0 1700000004159 [] ''0'' (Some 1)))
     = ''0004e277800e18aee2a29cd5401cc45cc1cd1a55216aee0aa7b12f32032a465d''"
  by (simp add: sha_digest_eval sha_genesis_nonce_1_1)

lemma sha_block_undefined_1:
  "sha_compress
    [1779033703, 3144134277, 1013904242, 2773480762, 1359893119, 2600822924, 528734635, 1541459225]
    [49, 55, 48, 48, 48, 48, 48, 48, 54, 52, 50, 57, 55, 91, 123, 34,
     102, 114, 111, 109, 65, 100, 100, 114, 101, 115, 115, 34, 58, 110, 117, 108,
     108, 44, 34, 116, 111, 65, 100, 100, 114, 101, 115, 115, 34, 58, 34, 65,
     34, 44, 34, 97, 109, 111, 117, 110, 116, 34, 58, 49, 48, 48, 44, 34]
   = [931144392, 2133170860, 1956702504, 1846786186, 1421924792, 3946561092, 2433809194, 4066676242]"
  by (simp add: sha_compress_def sha_eval)

lemma sha_block_undefined_2:
  "sha_compress
    [931144392, 2133170860, 1956702504, 1846786186, 1421924792, 3946561092, 2433809194, 4066676242]
    [116, 105, 109, 101, 115, 116, 97, 109, 112, 34, 58, 49, 55, 48, 48, 48,
     48, 48, 48, 54, 52, 50, 57, 53, 44, 34, 115, 105, 103, 110, 97, 116,
     117, 114, 101, 34, 58, 110, 117, 108, 108, 125, 93, 56, 97, 102, 98, 53,
     49, 54, 98, 53, 102, 100, 52, 48, 97, 99, 98, 101, 101, 55, 101, 57]
   = [2966240485, 2769803708, 4096783681, 68086242, 465932231, 2980532256, 1586075911, 1935675197]"
  by (simp add: sha_compress_def sha_eval)

lemma sha_block_undefined_3:
  "sha_compress
    [2966240485, 2769803708, 4096783681, 68086242, 465932231, 2980532256, 1586075911, 1935675197]
    [48, 56, 98, 48, 100, 49, 99, 48, 102, 51, 52, 54, 54, 55, 57, 57,
     50, 55, 100, 49, 54, 97, 97, 55, 57, 99, 53, 57, 48, 100, 49, 52,
     100, 55, 52, 57, 53, 48, 98, 57, 51, 50, 101, 117, 110, 100, 101, 102,
     105, 110, 101, 100, 128, 0, 0, 0, 0, 0, 0, 0, 0, 0, 5, 160]
   = [8317092, 761083155, 3189463086, 3089528065, 1781087687, 3375094005, 700033102, 3605357730]"
  by (simp add: sha_compress_def sha_eval)

lemma digest_block_undefined:
  "digest_hex node_lib (utf8 (Block_preimage 1 1700000064296 [Transaction None (Some ''A'') 100 1700000064295] ''8afb516b5fd40acbee7e908b0d1c0f346679927d16aa79c590d14d74950b932e'' None))
     = ''007ee8a42d5d3513be1b582eb82675016a293dc7c92bd8f529b9a84ed6e564a2''"
  by (simp add: sha_digest_eval sha_block_undefined_1 sha_block_undefined_2 sha_block_undefined_3)

lemma sha_block_nonce_0_3:
  "sha_compress
    [2966240485, 2769803708, 4096783681, 68086242, 465932231, 2980532256, 1586075911, 1935675197]
    [48, 56, 98, 48, 100, 49, 99, 48, 102, 51, 52, 54, 54, 55, 57, 57,
     50, 55, 100, 49, 54, 97, 97, 55, 57, 99, 53, 57, 48, 100, 49, 52,
     100, 55, 52, 57, 53, 48, 98, 57, 51, 50, 101, 48, 128, 0, 0, 0,
     0, 0, 0, 0, 0, 0, 0, 0, 0, 0, 0, 0, 0, 0, 5, 96]
   = [2864313657, 4236324054, 1252165080, 1809097062, 2584443256, 1840903450, 1591124885, 4250412726]"
  by (simp add: sha_compress_def sha_eval)

lemma digest_block_nonce_0:
  "digest_hex node_lib (utf8 (Block_preimage 1 1700000064296 [Transaction None (Some ''A'') 100 1700000064295] ''8afb516b5fd40acbee7e908b0d1c0f346679927d16aa79c590d14d74950b932e'' (Some 0)))
     = ''aab9f539fc812cd64aa285d86bd4a1669a0b79786db9f51a5ed6a395fd5826b6''"
  by (simp add: sha_digest_eval sha_block_undefined_1 sha_block_undefined_2 sha_block_nonce_0_3)

section \<open>The ledger on the digests of the host\<close>

lemma Block_hash_undefined:
  "hash (Block lib i ts txs prev)
     = digest_hex lib (utf8 (show_nat (i + ts) @ stringify txs @ prev @ ''undefined''))"
  by (simp add: Block_def Block_preimage_def)

lemma Block_calculateHash_fresh:
  "Block_calculateHash lib (Block lib i ts txs prev)
     = digest_hex lib (utf8 (show_nat (i + ts) @ stringify txs @ prev @ ''0''))"
  by (simp add: Block_calculateHash_def Block_preimage_def show_nat.simps hexdigit_def)

lemma node_genesis: "createGenesisBlock node_lib 1700000004159 = node_genesis"
  by (simp add: createGenesisBlock_def Block_def node_genesis_def digest_genesis_undefined)

text \<open>
  Claim C8 on the code. The constructor computes the hash before it sets the nonce,
  so the text it digests ends in \<open>undefined\<close>, not in \<open>0\<close>. For the block
  constructed from index 0, time 1700000004159, no transactions and previous hash
  \<open>0\<close>, the nonce is 0, the stored hash is the digest of
  \<open>1700000004159[]0undefined\<close>, and \<open>calculateHash\<close> on the constructed block
  gives the digest of \<open>1700000004159[]00\<close>: the two differ.
\<close>

theorem Block_hash_before_nonce:
  "nonce (Block node_lib 0 1700000004159 [] ''0'') = 0
   \<and> hash (Block node_lib 0 1700000004159 [] ''0'')
       = ''8afb516b5fd40acbee7e908b0d1c0f346679927d16aa79c590d14d74950b932e''
   \<and> Block_calculateHash node_lib (Block node_lib 0 1700000004159 [] ''0'')
       = ''ef4fce505107b7031ffd947ee1d9f686f9b5426285cfa3cc3a0bd2a5330ba3a4''
   \<and> hash (Block node_lib 0 1700000004159 [] ''0'')
       \<noteq> Block_calculateHash node_lib (Block node_lib 0 1700000004159 [] ''0'')"
  using digest_genesis_undefined digest_genesis_nonce_0
  by (simp add: Block_def Block_calculateHash_def)

text \<open>
  Claim C7, as stated, fails: mining the block constructed from index 0, time
  1700000004159, no transactions and previous hash \<open>0\<close> with difficulty 2 stops
  at nonce 1 with a hash that begins with three zeros, not with exactly two.
\<close>

theorem mineBlock_exactly_counterexample:
  "mineBlock node_lib 2 (Block node_lib 0 1700000004159 [] ''0'')
     = Some \<lparr>index = 0, timestamp = 1700000004159, transactions = [], previousHash = ''0'',
             hash = ''0004e277800e18aee2a29cd5401cc45cc1cd1a55216aee0aa7b12f32032a465d'',
             nonce = 1\<rparr>
   \<and> leading_zeros ''0004e277800e18aee2a29cd5401cc45cc1cd1a55216aee0aa7b12f32032a465d'' = 3
   \<and> leading_zeros ''0004e277800e18aee2a29cd5401cc45cc1cd1a55216aee0aa7b12f32032a465d'' \<noteq> 2"
proof -
  have 0: "\<not> meets 2 (hash (Block node_lib 0 1700000004159 [] ''0''))"
    by (simp add: Block_def digest_genesis_undefined meets_def numeral_2_eq_2)
  have 1: "next_nonce node_lib (Block node_lib 0 1700000004159 [] ''0'')
     = \<lparr>index = 0, timestamp = 1700000004159, transactions = [], previousHash = ''0'',
        hash = ''0004e277800e18aee2a29cd5401cc45cc1cd1a55216aee0aa7b12f32032a465d'',
        nonce = 1\<rparr>"
    using digest_genesis_nonce_1
    by (simp add: next_nonce_def Block_def Block_calculateHash_def)
  have 2: "meets 2 ''0004e277800e18aee2a29cd5401cc45cc1cd1a55216aee0aa7b12f32032a465d''"
    by (simp add: meets_def numeral_2_eq_2)
  have "mineBlock node_lib 2 (Block node_lib 0 1700000004159 [] ''0'')
     = Some \<lparr>index = 0, timestamp = 1700000004159, transactions = [], previousHash = ''0'',
             hash = ''0004e277800e18aee2a29cd5401cc45cc1cd1a55216aee0aa7b12f32032a465d'',
             nonce = 1\<rparr>"
    by (subst mineBlock.simps, simp only: 0 1 not_False_eq_True if_True)
       (subst mineBlock.simps, simp add: 2)
  then show ?thesis by (simp add: leading_zeros_def)
qed

lemma node_mine:
  "minePendingTransactions node_lib (Blockchain node_lib 1700000004159) ''A''
       1700000064295 1700000064296
     = Some (Inr node_block, node_ledger)"
proof -
  have c: "candidate node_lib (Blockchain node_lib 1700000004159) ''A'' 1700000064295 1700000064296
      = node_block"
    using digest_block_undefined
    by (simp add: candidate_def node_genesis node_genesis_def node_block_def Block_def)
  have "meets 2 (hash node_block)"
    by (simp add: node_block_def meets_def numeral_2_eq_2)
  then have "mineBlock node_lib 2 node_block = Some node_block"
    by (subst mineBlock.simps) simp
  then show ?thesis
    by (simp add: minePendingTransactions_unfold c)
       (simp add: Blockchain_def node_ledger_def node_genesis)
qed

text \<open>
  Claim C2 on the code. On the ledger created at time 1700000004159, the call
  \<open>minePendingTransactions('A')\<close> with the clock at 1700000064295 and
  1700000064296 returns: the hash that the constructor stored already begins with
  two zeros, so the search does not run and the block is appended with that hash
  and nonce 0. The recomputed hash of the block is another one, and
  \<open>isChainValid\<close> is false on the ledger reached.
\<close>

theorem mined_chain_invalid:
  "run node_lib (Blockchain node_lib 1700000004159)
       [MinePendingTransactions ''A'' 1700000064295 1700000064296] = Some node_ledger
   \<and> hash (chain node_ledger ! 1)
       = ''007ee8a42d5d3513be1b582eb82675016a293dc7c92bd8f529b9a84ed6e564a2''
   \<and> Block_calculateHash node_lib (chain node_ledger ! 1)
       = ''aab9f539fc812cd64aa285d86bd4a1669a0b79786db9f51a5ed6a395fd5826b6''
   \<and> isChainValid node_lib node_ledger = False"
proof -
  have h: "Block_calculateHash node_lib node_block
      = ''aab9f539fc812cd64aa285d86bd4a1669a0b79786db9f51a5ed6a395fd5826b6''"
    using digest_block_nonce_0 by (simp add: Block_calculateHash_def node_block_def)
  have "hash node_block \<noteq> Block_calculateHash node_lib node_block"
    unfolding h by (simp add: node_block_def)
  then have "isChainValid node_lib node_ledger = False"
    by (simp add: isChainValid_def node_ledger_def)
  moreover have "hash (chain node_ledger ! 1)
       = ''007ee8a42d5d3513be1b582eb82675016a293dc7c92bd8f529b9a84ed6e564a2''"
    by (simp add: node_ledger_def node_block_def)
  moreover have "Block_calculateHash node_lib (chain node_ledger ! 1)
       = ''aab9f539fc812cd64aa285d86bd4a1669a0b79786db9f51a5ed6a395fd5826b6''"
    using h by (simp add: node_ledger_def)
  ultimately show ?thesis by (simp add: node_mine)
qed


end
